theory Spec2Isabelle
  imports Complex_Main
begin

section \<open>JavaScript values, exceptions and the effects of the pipeline\<close>

text \<open>
  The pipeline is TypeScript, but its types are erased at run time: what \<open>JSON.parse\<close>
  returns is cast to \<open>Partial<InvoiceData>\<close> without any check. The fields of a record are
  therefore modelled as run-time values. Numbers are only passed through and compared with
  the literal \<open>0\<close>; they are modelled as rationals. An object is the list of its own
  properties (keys distinct, as \<open>JSON.parse\<close> builds them).
\<close>

datatype jsval =
    Undefined
  | Null
  | Bool bool
  | Num rat
  | Str string
  | Arr "jsval list"
  | Obj "(string \<times> jsval) list"

text \<open>Thrown values: \<open>new Error(msg)\<close>, a \<open>TypeError\<close> of the engine, a rejection by
  the file reader or by the model service.\<close>

datatype js_exn =
    Error string
  | TypeError string
  | ReadRejected
  | ServiceRejected string

text \<open>Sequencing of steps that may throw.\<close>

definition bindE :: "js_exn + 'a \<Rightarrow> ('a \<Rightarrow> js_exn + 'b) \<Rightarrow> js_exn + 'b" where
  "bindE m f = (case m of Inl e \<Rightarrow> Inl e | Inr x \<Rightarrow> f x)"

text \<open>
  The only state a batch threads through its steps is the number of calls made to
  \<open>Math.random()\<close> so far. A computation takes that counter and returns either a thrown
  value or a result, with the new counter.
\<close>

type_synonym 'a io = "nat \<Rightarrow> (js_exn + 'a) \<times> nat"

definition ret :: "'a \<Rightarrow> 'a io" where
  "ret x = (\<lambda>k. (Inr x, k))"

definition lift :: "js_exn + 'a \<Rightarrow> 'a io" where
  "lift r = (\<lambda>k. (r, k))"

definition bind :: "'a io \<Rightarrow> ('a \<Rightarrow> 'b io) \<Rightarrow> 'b io" where
  "bind m f = (\<lambda>k. case m k of (Inl e, k') \<Rightarrow> (Inl e, k') | (Inr x, k') \<Rightarrow> f x k')"

text \<open>\<open>try { m } catch (err) { h err }\<close>: the handler runs in the state the throw left.\<close>

definition try_catch :: "'a io \<Rightarrow> (js_exn \<Rightarrow> 'a io) \<Rightarrow> 'a io" where
  "try_catch m h = (\<lambda>k. case m k of (Inl e, k') \<Rightarrow> h e k' | (Inr x, k') \<Rightarrow> (Inr x, k'))"

text \<open>
  \<open>for (const file of files) { body }\<close> over a local array that every iteration ends by
  pushing to: the array is passed along, and the index of the iteration is made explicit.
\<close>

fun for_of :: "(nat \<Rightarrow> 'f \<Rightarrow> 'r list \<Rightarrow> 'r list io) \<Rightarrow> 'f list \<Rightarrow> nat \<Rightarrow> 'r list \<Rightarrow> 'r list io" where
  "for_of body [] i acc = ret acc"
| "for_of body (f # fs) i acc = bind (body i f acc) (\<lambda>acc'. for_of body fs (Suc i) acc')"

subsection \<open>Property reads, \<open>??\<close> and \<open>||\<close>\<close>

text \<open>
  \<open>data.p\<close>: a \<open>TypeError\<close> on \<open>null\<close> and \<open>undefined\<close>, the own property of an object or
  \<open>undefined\<close>. None of the names the pipeline reads is a built-in property of arrays,
  strings, numbers, booleans or of \<open>Object.prototype\<close>, so on those the read is
  \<open>undefined\<close>.
\<close>

fun get_prop :: "jsval \<Rightarrow> string \<Rightarrow> js_exn + jsval" where
  "get_prop Undefined p = Inl (TypeError ''Cannot read properties of undefined'')"
| "get_prop Null p = Inl (TypeError ''Cannot read properties of null'')"
| "get_prop (Obj kvs) p = Inr (case map_of kvs p of None \<Rightarrow> Undefined | Some v \<Rightarrow> v)"
| "get_prop v p = Inr Undefined"

definition nullish :: "jsval \<Rightarrow> bool" where
  "nullish v = (v = Undefined \<or> v = Null)"

text \<open>\<open>v ?? d\<close>\<close>

definition coalesce :: "jsval \<Rightarrow> jsval \<Rightarrow> jsval" where
  "coalesce v d = (if nullish v then d else v)"

fun ToBoolean :: "jsval \<Rightarrow> bool" where
  "ToBoolean Undefined = False"
| "ToBoolean Null = False"
| "ToBoolean (Bool b) = b"
| "ToBoolean (Num n) = (n \<noteq> 0)"
| "ToBoolean (Str s) = (s \<noteq> [])"
| "ToBoolean (Arr xs) = True"
| "ToBoolean (Obj kvs) = True"

text \<open>\<open>v || d\<close>\<close>

definition or_else :: "jsval \<Rightarrow> jsval \<Rightarrow> jsval" where
  "or_else v d = (if ToBoolean v then v else d)"

text \<open>\<open>Array.prototype.join\<close> on an array of strings.\<close>

fun join :: "string \<Rightarrow> string list \<Rightarrow> string" where
  "join sep [] = []"
| "join sep [x] = x"
| "join sep (x # y # ys) = x @ sep @ join sep (y # ys)"

text \<open>Evaluating a list of steps in order: the first throw ends the evaluation.\<close>

fun sequenceE :: "(js_exn + 'a) list \<Rightarrow> js_exn + 'a list" where
  "sequenceE [] = Inr []"
| "sequenceE (r # rs) = bindE r (\<lambda>x. bindE (sequenceE rs) (\<lambda>xs. Inr (x # xs)))"

text \<open>
  The text a template literal inserts for a value, as ECMAScript defines \<open>ToString\<close>. How
  the engine prints a number is left to a parameter \<open>nf\<close>. An array is the texts of its
  elements joined by commas (\<open>null\<close> and \<open>undefined\<close> elements are empty). An object is
  converted by its \<open>toString\<close>: the inherited one gives \<open>[object Object]\<close>, but an own
  property of that name, which in a parsed value is never callable, leaves no way to a
  primitive and the conversion throws a \<open>TypeError\<close>.
\<close>

fun ToString :: "(rat \<Rightarrow> string) \<Rightarrow> jsval \<Rightarrow> js_exn + string" where
  "ToString nf Undefined = Inr ''undefined''"
| "ToString nf Null = Inr ''null''"
| "ToString nf (Bool b) = Inr (if b then ''true'' else ''false'')"
| "ToString nf (Num n) = Inr (nf n)"
| "ToString nf (Str s) = Inr s"
| "ToString nf (Arr xs) =
     bindE (sequenceE (map (\<lambda>x. if x = Undefined \<or> x = Null then Inr [] else ToString nf x) xs))
       (\<lambda>texts. Inr (join '','' texts))"
| "ToString nf (Obj kvs) =
     (if ''toString'' \<in> set (map fst kvs)
      then Inl (TypeError ''Cannot convert object to primitive value'')
      else Inr ''[object Object]'')"

subsection \<open>Identifiers: \<open>Math.random().toString(36).substr(2, 9)\<close>\<close>

text \<open>
  \<open>Math.random()\<close> returns a number in the interval from 0 (included) to 1 (excluded). In
  radix 36 the number 0 prints as \<open>0\<close> and every other draw as \<open>0.\<close> followed by at least
  one digit. Which digits the engine prints for a given double is left open: a draw is
  given by the digit string printed after the point, and the empty string stands for the
  draw 0. The source of randomness is a sequence of draws; the \<open>k\<close>-th call gets the
  \<open>k\<close>-th draw.
\<close>

type_synonym draw = string

definition toString36 :: "draw \<Rightarrow> string" where
  "toString36 ds = (if ds = [] then ''0'' else ''0.'' @ ds)"

definition substr :: "nat \<Rightarrow> nat \<Rightarrow> string \<Rightarrow> string" where
  "substr start len s = take len (drop start s)"

definition new_id :: "(nat \<Rightarrow> draw) \<Rightarrow> string io" where
  "new_id rnd = (\<lambda>k. (Inr (substr 2 9 (toString36 (rnd k))), Suc k))"

section \<open>The extraction service (\<open>geminiService\<close>)\<close>

record File =
  name :: string
  type :: string

record inlineData =
  data :: "string option"
  mimeType :: string

datatype schema =
    STRING "string option"
  | NUMBER "string option"
  | ARRAY "string option" schema
  | OBJECT "(string \<times> schema) list" "string list"

record request =
  model :: string
  filePart :: inlineData
  prompt :: string
  responseMimeType :: string
  responseSchema :: schema

text \<open>
  What the world answers during one call of an extraction function: the outcome of
  \<open>FileReader.readAsDataURL\<close> (\<open>None\<close> when the reader fires \<open>error\<close>) and the model
  service, which either rejects or returns a response whose \<open>text\<close> may be undefined.
\<close>

record world =
  readAsDataURL :: "File \<Rightarrow> string option"
  generateContent :: "request \<Rightarrow> js_exn + string option"

definition MODEL_NAME :: string where
  "MODEL_NAME = ''gemini-3-pro-preview''"

text \<open>\<open>String.prototype.split\<close> with a one-character separator, and an array read that is
  \<open>undefined\<close> out of range.\<close>

fun split :: "char \<Rightarrow> string \<Rightarrow> string list" where
  "split c [] = [[]]"
| "split c (x # xs) =
     (if x = c then [] # split c xs
      else (case split c xs of [] \<Rightarrow> [[x]] | p # ps \<Rightarrow> (x # p) # ps))"

definition at_index :: "'a list \<Rightarrow> nat \<Rightarrow> 'a option" where
  "at_index xs i = (if i < length xs then Some (xs ! i) else None)"

definition fileToGenerativePart :: "world \<Rightarrow> File \<Rightarrow> js_exn + inlineData" where
  "fileToGenerativePart w file =
     (case readAsDataURL w file of
        None \<Rightarrow> Inl ReadRejected
      | Some base64String \<Rightarrow>
          Inr \<lparr>data = at_index (split CHR '','' base64String) 1, mimeType = type file\<rparr>)"

definition invoiceSchema :: schema where
  "invoiceSchema = OBJECT
     [(''invoice_number'', STRING (Some ''The invoice number or identifier'')),
      (''invoice_date'', STRING (Some ''The date of the invoice (YYYY-MM-DD preferred)'')),
      (''supplier_name'', STRING (Some ''Name of the supplier or vendor'')),
      (''supplier_tax_id'', STRING (Some ''Tax ID, VAT ID, or GST number of the supplier'')),
      (''total_amount'', NUMBER (Some ''The total final amount of the invoice'')),
      (''currency'', STRING (Some ''Currency code (e.g., USD, EUR)'')),
      (''tax_amount'', NUMBER (Some ''Total tax amount (VAT/GST)'')),
      (''line_items'', ARRAY (Some ''List of items purchased'')
         (OBJECT
            [(''description'', STRING None),
             (''quantity'', NUMBER None),
             (''unit_price'', NUMBER None),
             (''line_total'', NUMBER None)]
            [''description'', ''line_total'']))]
     [''supplier_name'', ''total_amount'']"

definition businessCardSchema :: schema where
  "businessCardSchema = OBJECT
     [(''full_name'', STRING (Some ''Full name of the person'')),
      (''company'', STRING (Some ''Company name'')),
      (''job_title'', STRING (Some ''Job title or role'')),
      (''email'', STRING (Some ''Email address'')),
      (''phone'', STRING (Some ''Phone number'')),
      (''website'', STRING (Some ''Website URL'')),
      (''address'', STRING (Some ''Physical address''))]
     [''full_name'']"

text \<open>The argument of \<open>ai.models.generateContent\<close> in each of the two functions.\<close>

definition invoiceRequest :: "inlineData \<Rightarrow> request" where
  "invoiceRequest part =
     \<lparr>model = MODEL_NAME, filePart = part,
      prompt = ''Extract the following invoice data from this document. Return JSON.'',
      responseMimeType = ''application/json'',
      responseSchema = invoiceSchema\<rparr>"

definition businessCardRequest :: "inlineData \<Rightarrow> request" where
  "businessCardRequest part =
     \<lparr>model = MODEL_NAME, filePart = part,
      prompt = ''Extract contact details from this business card. Return JSON.'',
      responseMimeType = ''application/json'',
      responseSchema = businessCardSchema\<rparr>"

text \<open>
  \<open>JSON.parse\<close> is the engine's: it is a parameter, \<open>None\<close> standing for the
  \<open>SyntaxError\<close> it throws on a text that is not valid JSON. \<open>!text\<close> holds for an
  undefined text and for the empty string.
\<close>

definition extractInvoiceData :: "(string \<Rightarrow> jsval option) \<Rightarrow> world \<Rightarrow> File \<Rightarrow> js_exn + jsval" where
  "extractInvoiceData JSON_parse w file =
     bindE (fileToGenerativePart w file) (\<lambda>part.
     bindE (generateContent w (invoiceRequest part)) (\<lambda>text.
       (case text of
          None \<Rightarrow> Inl (Error ''No data returned from model'')
        | Some t \<Rightarrow>
            if t = [] then Inl (Error ''No data returned from model'')
            else (case JSON_parse t of
                    None \<Rightarrow> Inl (Error ''Failed to parse model response'')
                  | Some v \<Rightarrow> Inr v))))"

definition extractBusinessCardData :: "(string \<Rightarrow> jsval option) \<Rightarrow> world \<Rightarrow> File \<Rightarrow> js_exn + jsval" where
  "extractBusinessCardData JSON_parse w file =
     bindE (fileToGenerativePart w file) (\<lambda>part.
     bindE (generateContent w (businessCardRequest part)) (\<lambda>text.
       (case text of
          None \<Rightarrow> Inl (Error ''No data returned from model'')
        | Some t \<Rightarrow>
            if t = [] then Inl (Error ''No data returned from model'')
            else (case JSON_parse t of
                    None \<Rightarrow> Inl (Error ''Failed to parse model response'')
                  | Some v \<Rightarrow> Inr v))))"

section \<open>The records (\<open>types.ts\<close>)\<close>

text \<open>Both record shapes start with the internal identifier and the file name.\<close>

record Identified =
  id' :: string
  fileName :: string

record InvoiceData = Identified +
  invoice_number :: jsval
  invoice_date :: jsval
  supplier_name :: jsval
  supplier_tax_id :: jsval
  total_amount :: jsval
  currency :: jsval
  tax_amount :: jsval
  line_items :: jsval

record BusinessCardData = Identified +
  full_name :: jsval
  company :: jsval
  job_title :: jsval
  email :: jsval
  phone :: jsval
  website :: jsval
  address :: jsval

datatype ExtractionStatus = idle | processing | success | error

section \<open>The invoice tab\<close>

record Tab =
  files :: "File list"
  status :: ExtractionStatus
  errorMsg :: "string option"

record InvoiceTab = Tab +
  invoices :: "InvoiceData list"

definition InvoiceTab_initial :: InvoiceTab where
  "InvoiceTab_initial = \<lparr>files = [], status = idle, errorMsg = None, invoices = []\<rparr>"

definition InvoiceTab_handleFilesSelected :: "File list \<Rightarrow> InvoiceTab \<Rightarrow> InvoiceTab" where
  "InvoiceTab_handleFilesSelected selectedFiles s = s\<lparr>files := selectedFiles, errorMsg := None\<rparr>"

text \<open>
  The object literal of the \<open>try\<close> block. Its property reads throw when \<open>data\<close> is
  \<open>null\<close>; the identifier has been drawn by then.
\<close>

definition invoice_of :: "string \<Rightarrow> File \<Rightarrow> jsval \<Rightarrow> js_exn + InvoiceData" where
  "invoice_of i file d =
     bindE (get_prop d ''invoice_number'') (\<lambda>v1.
     bindE (get_prop d ''invoice_date'') (\<lambda>v2.
     bindE (get_prop d ''supplier_name'') (\<lambda>v3.
     bindE (get_prop d ''supplier_tax_id'') (\<lambda>v4.
     bindE (get_prop d ''total_amount'') (\<lambda>v5.
     bindE (get_prop d ''currency'') (\<lambda>v6.
     bindE (get_prop d ''tax_amount'') (\<lambda>v7.
     bindE (get_prop d ''line_items'') (\<lambda>v8.
       Inr \<lparr>id' = i, fileName = name file,
            invoice_number = coalesce v1 Null,
            invoice_date = coalesce v2 Null,
            supplier_name = coalesce v3 (Str ''Unknown Supplier''),
            supplier_tax_id = coalesce v4 Null,
            total_amount = coalesce v5 (Num 0),
            currency = coalesce v6 (Str ''USD''),
            tax_amount = coalesce v7 (Num 0),
            line_items = coalesce v8 (Arr [])\<rparr>))))))))"

text \<open>The object literal of the \<open>catch\<close> block.\<close>

definition failed_invoice :: "string \<Rightarrow> File \<Rightarrow> InvoiceData" where
  "failed_invoice i file =
     \<lparr>id' = i, fileName = name file,
      invoice_number = Str ''ERROR'',
      invoice_date = Null,
      supplier_name = Str ''Extraction Failed'',
      supplier_tax_id = Null,
      total_amount = Num 0,
      currency = Str [],
      tax_amount = Num 0,
      line_items = Arr []\<rparr>"

text \<open>
  One iteration of the loop. \<open>ws i\<close> is what the world answers during iteration \<open>i\<close>;
  \<open>console.error\<close> has no effect on the state and is left out.
\<close>

definition InvoiceTab_body ::
  "(nat \<Rightarrow> draw) \<Rightarrow> (string \<Rightarrow> jsval option) \<Rightarrow> (nat \<Rightarrow> world) \<Rightarrow>
   nat \<Rightarrow> File \<Rightarrow> InvoiceData list \<Rightarrow> InvoiceData list io" where
  "InvoiceTab_body rnd JSON_parse ws i file newInvoices =
     try_catch
       (bind (lift (extractInvoiceData JSON_parse (ws i) file)) (\<lambda>d.
        bind (new_id rnd) (\<lambda>ident.
        bind (lift (invoice_of ident file d)) (\<lambda>invoice.
        ret (newInvoices @ [invoice])))))
       (\<lambda>err. bind (new_id rnd) (\<lambda>ident. ret (newInvoices @ [failed_invoice ident file])))"

text \<open>The state a render sees while the loop runs.\<close>

definition InvoiceTab_started :: "InvoiceTab \<Rightarrow> InvoiceTab" where
  "InvoiceTab_started s = s\<lparr>status := processing, errorMsg := None\<rparr>"

definition InvoiceTab_processFiles ::
  "(nat \<Rightarrow> draw) \<Rightarrow> (string \<Rightarrow> jsval option) \<Rightarrow> (nat \<Rightarrow> world) \<Rightarrow> InvoiceTab \<Rightarrow> InvoiceTab io" where
  "InvoiceTab_processFiles rnd JSON_parse ws s =
     (if length (files s) = 0
      then ret (s\<lparr>errorMsg := Some ''Please upload at least one invoice file first.''\<rparr>)
      else bind (for_of (InvoiceTab_body rnd JSON_parse ws) (files s) 0 []) (\<lambda>newInvoices.
           ret ((InvoiceTab_started s)
                  \<lparr>invoices := invoices (InvoiceTab_started s) @ newInvoices,
                   files := [],
                   status := success\<rparr>)))"

section \<open>The business card tab\<close>

record BusinessCardTab = Tab +
  cards :: "BusinessCardData list"
  copyFeedback :: bool

definition BusinessCardTab_initial :: BusinessCardTab where
  "BusinessCardTab_initial =
     \<lparr>files = [], status = idle, errorMsg = None, cards = [], copyFeedback = False\<rparr>"

definition BusinessCardTab_handleFilesSelected :: "File list \<Rightarrow> BusinessCardTab \<Rightarrow> BusinessCardTab" where
  "BusinessCardTab_handleFilesSelected selectedFiles s = s\<lparr>files := selectedFiles, errorMsg := None\<rparr>"

definition card_of :: "string \<Rightarrow> File \<Rightarrow> jsval \<Rightarrow> js_exn + BusinessCardData" where
  "card_of i file d =
     bindE (get_prop d ''full_name'') (\<lambda>v1.
     bindE (get_prop d ''company'') (\<lambda>v2.
     bindE (get_prop d ''job_title'') (\<lambda>v3.
     bindE (get_prop d ''email'') (\<lambda>v4.
     bindE (get_prop d ''phone'') (\<lambda>v5.
     bindE (get_prop d ''website'') (\<lambda>v6.
     bindE (get_prop d ''address'') (\<lambda>v7.
       Inr \<lparr>id' = i, fileName = name file,
            full_name = coalesce v1 (Str ''Unknown''),
            company = coalesce v2 Null,
            job_title = coalesce v3 Null,
            email = coalesce v4 Null,
            phone = coalesce v5 Null,
            website = coalesce v6 Null,
            address = coalesce v7 Null\<rparr>)))))))"

definition failed_card :: "string \<Rightarrow> File \<Rightarrow> BusinessCardData" where
  "failed_card i file =
     \<lparr>id' = i, fileName = name file,
      full_name = Str ''Extraction Failed'',
      company = Null,
      job_title = Null,
      email = Null,
      phone = Null,
      website = Null,
      address = Null\<rparr>"

definition BusinessCardTab_body ::
  "(nat \<Rightarrow> draw) \<Rightarrow> (string \<Rightarrow> jsval option) \<Rightarrow> (nat \<Rightarrow> world) \<Rightarrow>
   nat \<Rightarrow> File \<Rightarrow> BusinessCardData list \<Rightarrow> BusinessCardData list io" where
  "BusinessCardTab_body rnd JSON_parse ws i file newCards =
     try_catch
       (bind (lift (extractBusinessCardData JSON_parse (ws i) file)) (\<lambda>d.
        bind (new_id rnd) (\<lambda>ident.
        bind (lift (card_of ident file d)) (\<lambda>card.
        ret (newCards @ [card])))))
       (\<lambda>err. bind (new_id rnd) (\<lambda>ident. ret (newCards @ [failed_card ident file])))"

definition BusinessCardTab_started :: "BusinessCardTab \<Rightarrow> BusinessCardTab" where
  "BusinessCardTab_started s = s\<lparr>status := processing, errorMsg := None\<rparr>"

definition BusinessCardTab_processFiles ::
  "(nat \<Rightarrow> draw) \<Rightarrow> (string \<Rightarrow> jsval option) \<Rightarrow> (nat \<Rightarrow> world) \<Rightarrow>
   BusinessCardTab \<Rightarrow> BusinessCardTab io" where
  "BusinessCardTab_processFiles rnd JSON_parse ws s =
     (if length (files s) = 0
      then ret (s\<lparr>errorMsg := Some ''Please upload at least one business card.''\<rparr>)
      else bind (for_of (BusinessCardTab_body rnd JSON_parse ws) (files s) 0 []) (\<lambda>newCards.
           ret ((BusinessCardTab_started s)
                  \<lparr>cards := cards (BusinessCardTab_started s) @ newCards,
                   files := [],
                   status := success\<rparr>)))"

text \<open>
  \<open>getGoogleContactsText\<close>: one template literal per card, the results joined with a line
  feed. \<open>field_text\<close> is one substitution \<open>${v || ''}\<close> and \<open>contact_line\<close> the arrow
  function passed to \<open>map\<close>; a conversion that throws ends the call.
\<close>

definition field_text :: "(rat \<Rightarrow> string) \<Rightarrow> jsval \<Rightarrow> js_exn + string" where
  "field_text nf v = ToString nf (or_else v (Str []))"

definition contact_line :: "(rat \<Rightarrow> string) \<Rightarrow> BusinessCardData \<Rightarrow> js_exn + string" where
  "contact_line nf c =
     bindE (field_text nf (full_name c)) (\<lambda>t1.
     bindE (field_text nf (company c)) (\<lambda>t2.
     bindE (field_text nf (job_title c)) (\<lambda>t3.
     bindE (field_text nf (email c)) (\<lambda>t4.
     bindE (field_text nf (phone c)) (\<lambda>t5.
     bindE (field_text nf (website c)) (\<lambda>t6.
     bindE (field_text nf (address c)) (\<lambda>t7.
       Inr (t1 @ ''; '' @ t2 @ ''; '' @ t3 @ ''; '' @ t4 @ ''; '' @ t5 @ ''; '' @ t6 @ ''; '' @
            t7))))))))"

definition getGoogleContactsText :: "(rat \<Rightarrow> string) \<Rightarrow> BusinessCardData list \<Rightarrow> js_exn + string" where
  "getGoogleContactsText nf cs =
     (if length cs = 0 then Inr []
      else bindE (sequenceE (map (contact_line nf) cs)) (\<lambda>lines. Inr (join [CHR 0x0A] lines)))"

section \<open>The states the tabs can reach\<close>

text \<open>
  A tab starts in its initial state. A selection of files, the start of a batch (the state
  rendered while the loop runs) and a completed call of \<open>processFiles\<close>, under any source
  of randomness, any parser and any answers of the world, each lead to a further state.
\<close>

inductive InvoiceTab_reachable :: "InvoiceTab \<Rightarrow> bool" where
  invoice_initial: "InvoiceTab_reachable InvoiceTab_initial"
| invoice_selected:
    "InvoiceTab_reachable s \<Longrightarrow> InvoiceTab_reachable (InvoiceTab_handleFilesSelected selectedFiles s)"
| invoice_started:
    "InvoiceTab_reachable s \<Longrightarrow> files s \<noteq> [] \<Longrightarrow> InvoiceTab_reachable (InvoiceTab_started s)"
| invoice_processed:
    "InvoiceTab_reachable s \<Longrightarrow> InvoiceTab_processFiles rnd JSON_parse ws s k = (Inr s', k') \<Longrightarrow>
     InvoiceTab_reachable s'"

inductive BusinessCardTab_reachable :: "BusinessCardTab \<Rightarrow> bool" where
  card_initial: "BusinessCardTab_reachable BusinessCardTab_initial"
| card_selected:
    "BusinessCardTab_reachable s \<Longrightarrow>
     BusinessCardTab_reachable (BusinessCardTab_handleFilesSelected selectedFiles s)"
| card_started:
    "BusinessCardTab_reachable s \<Longrightarrow> files s \<noteq> [] \<Longrightarrow>
     BusinessCardTab_reachable (BusinessCardTab_started s)"
| card_processed:
    "BusinessCardTab_reachable s \<Longrightarrow>
     BusinessCardTab_processFiles rnd JSON_parse ws s k = (Inr s', k') \<Longrightarrow>
     BusinessCardTab_reachable s'"
| card_copied:
    "BusinessCardTab_reachable s \<Longrightarrow> BusinessCardTab_reachable (s\<lparr>copyFeedback := b\<rparr>)"

section \<open>What a batch run computes\<close>

text \<open>\<open>ident rnd k\<close> is the identifier made from the \<open>k\<close>-th draw.\<close>

definition ident :: "(nat \<Rightarrow> draw) \<Rightarrow> nat \<Rightarrow> string" where
  "ident rnd k = substr 2 9 (toString36 (rnd k))"

text \<open>
  A loop whose iteration \<open>i\<close> on file \<open>f\<close>, entered after \<open>k\<close> draws, appends the record
  \<open>one i f k\<close> and leaves \<open>nxt i f k\<close> draws used, appends \<open>run_records\<close> and leaves
  \<open>run_counter\<close> draws used.
\<close>

fun run_records ::
  "(nat \<Rightarrow> 'f \<Rightarrow> nat \<Rightarrow> 'r) \<Rightarrow> (nat \<Rightarrow> 'f \<Rightarrow> nat \<Rightarrow> nat) \<Rightarrow> 'f list \<Rightarrow> nat \<Rightarrow> nat \<Rightarrow> 'r list" where
  "run_records one nxt [] i k = []"
| "run_records one nxt (f # fs) i k = one i f k # run_records one nxt fs (Suc i) (nxt i f k)"

fun run_counter :: "(nat \<Rightarrow> 'f \<Rightarrow> nat \<Rightarrow> nat) \<Rightarrow> 'f list \<Rightarrow> nat \<Rightarrow> nat \<Rightarrow> nat" where
  "run_counter nxt [] i k = k"
| "run_counter nxt (f # fs) i k = run_counter nxt fs (Suc i) (nxt i f k)"

text \<open>
  The record one iteration appends and the draws it leaves used. An iteration whose
  extraction throws draws once, in the \<open>catch\<close> block; one whose object literal throws has
  drawn in the \<open>try\<close> block already and draws again.
\<close>

definition InvoiceTab_step ::
  "(nat \<Rightarrow> draw) \<Rightarrow> (string \<Rightarrow> jsval option) \<Rightarrow> world \<Rightarrow> File \<Rightarrow> nat \<Rightarrow> InvoiceData \<times> nat" where
  "InvoiceTab_step rnd P w f k =
     (case extractInvoiceData P w f of
        Inl e \<Rightarrow> (failed_invoice (ident rnd k) f, Suc k)
      | Inr d \<Rightarrow>
          (case invoice_of (ident rnd k) f d of
             Inl e \<Rightarrow> (failed_invoice (ident rnd (Suc k)) f, Suc (Suc k))
           | Inr invoice \<Rightarrow> (invoice, Suc k)))"

definition BusinessCardTab_step ::
  "(nat \<Rightarrow> draw) \<Rightarrow> (string \<Rightarrow> jsval option) \<Rightarrow> world \<Rightarrow> File \<Rightarrow> nat \<Rightarrow> BusinessCardData \<times> nat" where
  "BusinessCardTab_step rnd P w f k =
     (case extractBusinessCardData P w f of
        Inl e \<Rightarrow> (failed_card (ident rnd k) f, Suc k)
      | Inr d \<Rightarrow>
          (case card_of (ident rnd k) f d of
             Inl e \<Rightarrow> (failed_card (ident rnd (Suc k)) f, Suc (Suc k))
           | Inr c \<Rightarrow> (c, Suc k)))"

definition InvoiceTab_new ::
  "(nat \<Rightarrow> draw) \<Rightarrow> (string \<Rightarrow> jsval option) \<Rightarrow> (nat \<Rightarrow> world) \<Rightarrow> File list \<Rightarrow> nat \<Rightarrow> InvoiceData list" where
  "InvoiceTab_new rnd P ws fs k =
     run_records (\<lambda>i f k. fst (InvoiceTab_step rnd P (ws i) f k))
       (\<lambda>i f k. snd (InvoiceTab_step rnd P (ws i) f k)) fs 0 k"

definition InvoiceTab_used ::
  "(nat \<Rightarrow> draw) \<Rightarrow> (string \<Rightarrow> jsval option) \<Rightarrow> (nat \<Rightarrow> world) \<Rightarrow> File list \<Rightarrow> nat \<Rightarrow> nat" where
  "InvoiceTab_used rnd P ws fs k =
     run_counter (\<lambda>i f k. snd (InvoiceTab_step rnd P (ws i) f k)) fs 0 k"

definition BusinessCardTab_new ::
  "(nat \<Rightarrow> draw) \<Rightarrow> (string \<Rightarrow> jsval option) \<Rightarrow> (nat \<Rightarrow> world) \<Rightarrow> File list \<Rightarrow> nat \<Rightarrow>
   BusinessCardData list" where
  "BusinessCardTab_new rnd P ws fs k =
     run_records (\<lambda>i f k. fst (BusinessCardTab_step rnd P (ws i) f k))
       (\<lambda>i f k. snd (BusinessCardTab_step rnd P (ws i) f k)) fs 0 k"

definition BusinessCardTab_used ::
  "(nat \<Rightarrow> draw) \<Rightarrow> (string \<Rightarrow> jsval option) \<Rightarrow> (nat \<Rightarrow> world) \<Rightarrow> File list \<Rightarrow> nat \<Rightarrow> nat" where
  "BusinessCardTab_used rnd P ws fs k =
     run_counter (\<lambda>i f k. snd (BusinessCardTab_step rnd P (ws i) f k)) fs 0 k"

text \<open>
  Reading the outcome of a call: whether it returned rather than threw, the state it
  returned, and the records the returned state holds beyond those of the state before.
\<close>

definition returned :: "(js_exn + 'a) \<times> nat \<Rightarrow> bool" where
  "returned r = (case fst r of Inl e \<Rightarrow> False | Inr x \<Rightarrow> True)"

definition InvoiceTab_appended :: "InvoiceTab \<Rightarrow> (js_exn + InvoiceTab) \<times> nat \<Rightarrow> InvoiceData list" where
  "InvoiceTab_appended s r =
     (case fst r of Inl e \<Rightarrow> [] | Inr s' \<Rightarrow> drop (length (invoices s)) (invoices s'))"

definition BusinessCardTab_appended ::
  "BusinessCardTab \<Rightarrow> (js_exn + BusinessCardTab) \<times> nat \<Rightarrow> BusinessCardData list" where
  "BusinessCardTab_appended s r =
     (case fst r of Inl e \<Rightarrow> [] | Inr s' \<Rightarrow> drop (length (cards s)) (cards s'))"

section \<open>The record shapes and their documented defaults\<close>

text \<open>
  The value a raw extraction result supplies for a field: what the property read gives,
  \<open>undefined\<close> where there is nothing to read from. A field is absent when that value is
  \<open>undefined\<close> or \<open>null\<close>.
\<close>

definition raw :: "jsval \<Rightarrow> string \<Rightarrow> jsval" where
  "raw d p = (case get_prop d p of Inl e \<Rightarrow> Undefined | Inr v \<Rightarrow> v)"

text \<open>
  The fields of each record shape in declared order: the name, the field of the record,
  and the default the specification documents for it.
\<close>

definition invoice_shape :: "(string \<times> (InvoiceData \<Rightarrow> jsval) \<times> jsval) list" where
  "invoice_shape =
     [(''invoice_number'', invoice_number, Null),
      (''invoice_date'', invoice_date, Null),
      (''supplier_name'', supplier_name, Str ''Unknown Supplier''),
      (''supplier_tax_id'', supplier_tax_id, Null),
      (''total_amount'', total_amount, Num 0),
      (''currency'', currency, Str ''USD''),
      (''tax_amount'', tax_amount, Num 0),
      (''line_items'', line_items, Arr [])]"

definition card_shape :: "(string \<times> (BusinessCardData \<Rightarrow> jsval) \<times> jsval) list" where
  "card_shape =
     [(''full_name'', full_name, Str ''Unknown''),
      (''company'', company, Null),
      (''job_title'', job_title, Null),
      (''email'', email, Null),
      (''phone'', phone, Null),
      (''website'', website, Null),
      (''address'', address, Null)]"

text \<open>A record normalizes a raw result: every field holds the supplied value, or its
  default where the field is absent.\<close>

definition normalizes :: "'r \<Rightarrow> jsval \<Rightarrow> (string \<times> ('r \<Rightarrow> jsval) \<times> jsval) list \<Rightarrow> bool" where
  "normalizes r d shape =
     list_all (\<lambda>(p, sel, dflt). sel r = (if nullish (raw d p) then dflt else raw d p)) shape"

text \<open>A raw result is complete: it supplies a value for every field of the shape.\<close>

definition complete :: "jsval \<Rightarrow> (string \<times> ('r \<Rightarrow> jsval) \<times> jsval) list \<Rightarrow> bool" where
  "complete d shape = list_all (\<lambda>(p, sel, dflt). \<not> nullish (raw d p)) shape"

text \<open>A record carries a raw result: every field holds exactly the supplied value.\<close>

definition carries :: "'r \<Rightarrow> jsval \<Rightarrow> (string \<times> ('r \<Rightarrow> jsval) \<times> jsval) list \<Rightarrow> bool" where
  "carries r d shape = list_all (\<lambda>(p, sel, dflt). sel r = raw d p) shape"

text \<open>
  The clipboard format as the specification words it: per record, the texts of the
  declared fields in declared order, joined by \<open>; \<close>.
\<close>

definition export_line :: "(rat \<Rightarrow> string) \<Rightarrow> BusinessCardData \<Rightarrow> js_exn + string" where
  "export_line nf c =
     bindE (sequenceE (map (\<lambda>(p, sel, dflt). field_text nf (sel c)) card_shape))
       (\<lambda>texts. Inr (join ''; '' texts))"

section \<open>Concrete inputs\<close>

text \<open>
  The inputs the theorems below are instantiated at. \<open>demo_parse\<close> is \<open>JSON.parse\<close> on the
  five texts it lists and is used on those and on texts that are not JSON only.
\<close>

definition demo_parse :: "string \<Rightarrow> jsval option" where
  \<open>demo_parse t =
     (if t = ''{"supplier_name":"Acme Co","total_amount":150.5}''
        then Some (Obj [(''supplier_name'', Str ''Acme Co''), (''total_amount'', Num 150.5)])
      else if t = ''{"full_name":"Jane Doe"}'' then Some (Obj [(''full_name'', Str ''Jane Doe'')])
      else if t = ''{"note":"n/a"}'' then Some (Obj [(''note'', Str ''n/a'')])
      else if t = ''{}'' then Some (Obj [])
      else if t = ''null'' then Some Null
      else None)\<close>

definition acme_text :: string where
  \<open>acme_text = ''{"supplier_name":"Acme Co","total_amount":150.5}''\<close>

definition jane_text :: string where
  \<open>jane_text = ''{"full_name":"Jane Doe"}''\<close>

definition acme_raw :: jsval where
  "acme_raw = Obj [(''supplier_name'', Str ''Acme Co''), (''total_amount'', Num 150.5)]"

definition note_text :: string where
  \<open>note_text = ''{"note":"n/a"}''\<close>

definition jane_raw :: jsval where
  "jane_raw = Obj [(''full_name'', Str ''Jane Doe'')]"

definition full_invoice_raw :: jsval where
  "full_invoice_raw = Obj
     [(''invoice_number'', Str ''INV-7''),
      (''invoice_date'', Str ''2024-05-01''),
      (''supplier_name'', Str ''Acme Co''),
      (''supplier_tax_id'', Str ''DE123''),
      (''total_amount'', Num 150.5),
      (''currency'', Str ''EUR''),
      (''tax_amount'', Num 24),
      (''line_items'', Arr [Obj [(''description'', Str ''Bolt''), (''line_total'', Num 150.5)]])]"

definition full_card_raw :: jsval where
  "full_card_raw = Obj
     [(''full_name'', Str ''Jane Doe''),
      (''company'', Str ''Acme Co''),
      (''job_title'', Str ''CTO''),
      (''email'', Str ''jane@acme.example''),
      (''phone'', Str ''555-0100''),
      (''website'', Str ''acme.example''),
      (''address'', Str ''1 Main St'')]"

text \<open>A world whose reader and service both answer, the service with the given text.\<close>

definition answering :: "string option \<Rightarrow> world" where
  "answering text =
     \<lparr>readAsDataURL = (\<lambda>f. Some ''data:application/pdf;base64,JVBERi0=''),
      generateContent = (\<lambda>req. Inr text)\<rparr>"

text \<open>A world whose service answers an invoice request with the invoice text and any
  other request with the business card text.\<close>

definition serving :: world where
  "serving =
     \<lparr>readAsDataURL = (\<lambda>f. Some ''data:application/pdf;base64,JVBERi0=''),
      generateContent = (\<lambda>req. Inr (Some
        (if prompt req = ''Extract the following invoice data from this document. Return JSON.''
         then acme_text else jane_text)))\<rparr>"

text \<open>A world whose service rejects the call, and one whose reader fails.\<close>

definition rejecting :: world where
  "rejecting =
     \<lparr>readAsDataURL = (\<lambda>f. Some ''data:application/pdf;base64,JVBERi0=''),
      generateContent = (\<lambda>req. Inl (ServiceRejected ''quota exceeded''))\<rparr>"

definition unreadable :: world where
  "unreadable = \<lparr>readAsDataURL = (\<lambda>f. None), generateContent = (\<lambda>req. Inr (Some ''{}''))\<rparr>"

definition always_rejecting :: "nat \<Rightarrow> world" where
  "always_rejecting i = rejecting"

definition always_serving :: "nat \<Rightarrow> world" where
  "always_serving i = serving"

text \<open>The mixed batch: the second file cannot be read, the others are served.\<close>

definition mixed_worlds :: "nat \<Rightarrow> world" where
  "mixed_worlds i = (if i = 1 then unreadable else serving)"

definition scan :: "string \<Rightarrow> File" where
  "scan n = \<lparr>name = n, type = ''application/pdf''\<rparr>"

definition three_scans :: "File list" where
  "three_scans = [scan ''scan0.pdf'', scan ''scan1.pdf'', scan ''scan2.pdf'']"

text \<open>Draws that print different digits, draws that all are one half, and draws that
  all are zero.\<close>

definition counting_draws :: "nat \<Rightarrow> draw" where
  "counting_draws k = (if k = 0 then ''k3x9q0zt1mw'' else if k = 1 then ''7ab'' else ''z'' @ replicate k CHR ''0'' @ ''1'')"

definition half_draws :: "nat \<Rightarrow> draw" where
  "half_draws k = ''i''"

definition zero_draws :: "nat \<Rightarrow> draw" where
  "zero_draws k = []"

definition invoice_queue :: "File list \<Rightarrow> InvoiceTab" where
  "invoice_queue fs = InvoiceTab_handleFilesSelected fs InvoiceTab_initial"

definition card_queue :: "File list \<Rightarrow> BusinessCardTab" where
  "card_queue fs = BusinessCardTab_handleFilesSelected fs BusinessCardTab_initial"

definition jane_card :: BusinessCardData where
  "jane_card =
     \<lparr>id' = ''k3x9q0zt1'', fileName = ''card.png'',
      full_name = Str ''Jane Doe'', company = Str ''Acme Co'', job_title = Null,
      email = Str ''jane@acme.example'', phone = Null, website = Null, address = Null\<rparr>"

text \<open>Tabs that hold a record of an earlier batch and a queue of one file.\<close>

definition later_invoice_tab :: InvoiceTab where
  "later_invoice_tab =
     \<lparr>files = [scan ''scan3.pdf''], status = success, errorMsg = None,
      invoices = [failed_invoice ''earlier01'' (scan ''scan1.pdf'')]\<rparr>"

definition later_card_tab :: BusinessCardTab where
  "later_card_tab =
     \<lparr>files = [scan ''card2.png''], status = success, errorMsg = None,
      cards = [jane_card], copyFeedback = False\<rparr>"

text \<open>The records the normalization makes of the two raw results above.\<close>

definition acme_invoice :: "string \<Rightarrow> string \<Rightarrow> InvoiceData" where
  "acme_invoice i n =
     \<lparr>id' = i, fileName = n, invoice_number = Null, invoice_date = Null,
      supplier_name = Str ''Acme Co'', supplier_tax_id = Null, total_amount = Num 150.5,
      currency = Str ''USD'', tax_amount = Num 0, line_items = Arr []\<rparr>"

definition jane_partial_card :: "string \<Rightarrow> string \<Rightarrow> BusinessCardData" where
  "jane_partial_card i n =
     \<lparr>id' = i, fileName = n, full_name = Str ''Jane Doe'', company = Null, job_title = Null,
      email = Null, phone = Null, website = Null, address = Null\<rparr>"

text \<open>How the engine prints the numbers the concrete inputs use.\<close>

definition number_text :: "rat \<Rightarrow> string" where
  "number_text n = (if n = 0 then ''0'' else if n = 24 then ''24'' else ''150.5'')"

text \<open>A raw business card result whose address has two lines, and the card it is
  normalized to.\<close>

definition two_line_raw :: jsval where
  "two_line_raw =
     Obj [(''full_name'', Str ''Jane Doe''),
          (''address'', Str (''1 Main St'' @ [CHR 0x0A] @ ''Springfield''))]"

definition two_line_card :: BusinessCardData where
  "two_line_card =
     \<lparr>id' = ''k3x9q0zt1'', fileName = ''card.png'', full_name = Str ''Jane Doe'', company = Null,
      job_title = Null, email = Null, phone = Null, website = Null,
      address = Str (''1 Main St'' @ [CHR 0x0A] @ ''Springfield'')\<rparr>"

section \<open>The loop\<close>

lemma ident_take: "ident rnd k = take 9 (rnd k)"
  by (simp add: ident_def substr_def toString36_def)

lemma for_of_run:
  assumes "\<And>i f acc k. body i f acc k = (Inr (acc @ [one i f k]), nxt i f k)"
  shows "for_of body fs i acc k = (Inr (acc @ run_records one nxt fs i k), run_counter nxt fs i k)"
proof (induction fs arbitrary: i acc k)
  case Nil
  show ?case by (simp add: ret_def)
next
  case (Cons f fs)
  show ?case by (simp add: bind_def assms[of i f acc k] Cons.IH)
qed

lemma length_run_records: "length (run_records one nxt fs i k) = length fs"
  by (induction fs arbitrary: i k) simp_all

lemma nth_run_records:
  "j < length fs \<Longrightarrow>
   run_records one nxt fs i k ! j = one (i + j) (fs ! j) (run_counter nxt (take j fs) i k)"
proof (induction fs arbitrary: i j k)
  case Nil
  then show ?case by simp
next
  case (Cons f fs)
  show ?case
  proof (cases j)
    case 0
    then show ?thesis by simp
  next
    case (Suc j')
    with Cons.prems have "j' < length fs" by simp
    from Cons.IH[OF this] Suc show ?thesis by simp
  qed
qed

lemma run_counter_cong:
  "(\<And>j k. j < length fs \<Longrightarrow> nxt (i + j) (fs ! j) k = nxt' (i + j) (fs ! j) k) \<Longrightarrow>
   run_counter nxt fs i k = run_counter nxt' fs i k"
proof (induction fs arbitrary: i k)
  case Nil
  show ?case by simp
next
  case (Cons f fs)
  have h0: "nxt i f k = nxt' i f k" using Cons.prems[of 0 k] by simp
  have "run_counter nxt fs (Suc i) (nxt' i f k) = run_counter nxt' fs (Suc i) (nxt' i f k)"
  proof (rule Cons.IH)
    fix j k' assume "j < length fs"
    then show "nxt (Suc i + j) (fs ! j) k' = nxt' (Suc i + j) (fs ! j) k'"
      using Cons.prems[of "Suc j" k'] by simp
  qed
  with h0 show ?case by simp
qed

lemma InvoiceTab_body_step:
  "InvoiceTab_body rnd P ws i f acc k =
     (Inr (acc @ [fst (InvoiceTab_step rnd P (ws i) f k)]), snd (InvoiceTab_step rnd P (ws i) f k))"
  by (simp add: InvoiceTab_body_def InvoiceTab_step_def try_catch_def bind_def lift_def ret_def
      new_id_def ident_def split: sum.splits)

lemma BusinessCardTab_body_step:
  "BusinessCardTab_body rnd P ws i f acc k =
     (Inr (acc @ [fst (BusinessCardTab_step rnd P (ws i) f k)]),
      snd (BusinessCardTab_step rnd P (ws i) f k))"
  by (simp add: BusinessCardTab_body_def BusinessCardTab_step_def try_catch_def bind_def lift_def
      ret_def new_id_def ident_def split: sum.splits)

lemma InvoiceTab_for_of:
  "for_of (InvoiceTab_body rnd P ws) fs 0 [] k =
     (Inr (InvoiceTab_new rnd P ws fs k), InvoiceTab_used rnd P ws fs k)"
proof -
  have "for_of (InvoiceTab_body rnd P ws) fs 0 [] k =
          (Inr ([] @ InvoiceTab_new rnd P ws fs k), InvoiceTab_used rnd P ws fs k)"
    unfolding InvoiceTab_new_def InvoiceTab_used_def
    by (rule for_of_run) (rule InvoiceTab_body_step)
  then show ?thesis by simp
qed

lemma BusinessCardTab_for_of:
  "for_of (BusinessCardTab_body rnd P ws) fs 0 [] k =
     (Inr (BusinessCardTab_new rnd P ws fs k), BusinessCardTab_used rnd P ws fs k)"
proof -
  have "for_of (BusinessCardTab_body rnd P ws) fs 0 [] k =
          (Inr ([] @ BusinessCardTab_new rnd P ws fs k), BusinessCardTab_used rnd P ws fs k)"
    unfolding BusinessCardTab_new_def BusinessCardTab_used_def
    by (rule for_of_run) (rule BusinessCardTab_body_step)
  then show ?thesis by simp
qed

lemma InvoiceTab_processFiles_run:
  "files s \<noteq> [] \<Longrightarrow>
   InvoiceTab_processFiles rnd P ws s k =
     (Inr (s\<lparr>files := [], status := success, errorMsg := None,
             invoices := invoices s @ InvoiceTab_new rnd P ws (files s) k\<rparr>),
      InvoiceTab_used rnd P ws (files s) k)"
  by (simp add: InvoiceTab_processFiles_def InvoiceTab_started_def bind_def ret_def
      InvoiceTab_for_of)

lemma InvoiceTab_processFiles_empty:
  "files s = [] \<Longrightarrow>
   InvoiceTab_processFiles rnd P ws s k =
     (Inr (s\<lparr>errorMsg := Some ''Please upload at least one invoice file first.''\<rparr>), k)"
  by (simp add: InvoiceTab_processFiles_def ret_def)

lemma BusinessCardTab_processFiles_run:
  "files s \<noteq> [] \<Longrightarrow>
   BusinessCardTab_processFiles rnd P ws s k =
     (Inr (s\<lparr>files := [], status := success, errorMsg := None,
             cards := cards s @ BusinessCardTab_new rnd P ws (files s) k\<rparr>),
      BusinessCardTab_used rnd P ws (files s) k)"
  by (simp add: BusinessCardTab_processFiles_def BusinessCardTab_started_def bind_def ret_def
      BusinessCardTab_for_of)

lemma BusinessCardTab_processFiles_empty:
  "files s = [] \<Longrightarrow>
   BusinessCardTab_processFiles rnd P ws s k =
     (Inr (s\<lparr>errorMsg := Some ''Please upload at least one business card.''\<rparr>), k)"
  by (simp add: BusinessCardTab_processFiles_def ret_def)

section \<open>One iteration\<close>

lemma get_prop_raw: "\<not> nullish d \<Longrightarrow> get_prop d p = Inr (raw d p)"
  by (cases d) (simp_all add: raw_def nullish_def)

lemma get_prop_nullish: "nullish d \<Longrightarrow> \<exists>e. get_prop d p = Inl e"
  by (cases d) (simp_all add: nullish_def)

lemma invoice_of_ok:
  "\<not> nullish d \<Longrightarrow>
   invoice_of i f d =
     Inr \<lparr>id' = i, fileName = name f,
          invoice_number = coalesce (raw d ''invoice_number'') Null,
          invoice_date = coalesce (raw d ''invoice_date'') Null,
          supplier_name = coalesce (raw d ''supplier_name'') (Str ''Unknown Supplier''),
          supplier_tax_id = coalesce (raw d ''supplier_tax_id'') Null,
          total_amount = coalesce (raw d ''total_amount'') (Num 0),
          currency = coalesce (raw d ''currency'') (Str ''USD''),
          tax_amount = coalesce (raw d ''tax_amount'') (Num 0),
          line_items = coalesce (raw d ''line_items'') (Arr [])\<rparr>"
  by (simp add: invoice_of_def bindE_def get_prop_raw)

lemma invoice_of_nullish: "nullish d \<Longrightarrow> \<exists>e. invoice_of i f d = Inl e"
  by (cases d) (simp_all add: nullish_def invoice_of_def bindE_def)

lemma card_of_ok:
  "\<not> nullish d \<Longrightarrow>
   card_of i f d =
     Inr \<lparr>id' = i, fileName = name f,
          full_name = coalesce (raw d ''full_name'') (Str ''Unknown''),
          company = coalesce (raw d ''company'') Null,
          job_title = coalesce (raw d ''job_title'') Null,
          email = coalesce (raw d ''email'') Null,
          phone = coalesce (raw d ''phone'') Null,
          website = coalesce (raw d ''website'') Null,
          address = coalesce (raw d ''address'') Null\<rparr>"
  by (simp add: card_of_def bindE_def get_prop_raw)

lemma card_of_nullish: "nullish d \<Longrightarrow> \<exists>e. card_of i f d = Inl e"
  by (cases d) (simp_all add: nullish_def card_of_def bindE_def)

lemma invoice_of_fileName: "invoice_of i f d = Inr r \<Longrightarrow> fileName r = name f \<and> id' r = i"
  using invoice_of_ok[of d i f] invoice_of_nullish[of d i f] by (cases "nullish d") auto

lemma card_of_fileName: "card_of i f d = Inr r \<Longrightarrow> fileName r = name f \<and> id' r = i"
  using card_of_ok[of d i f] card_of_nullish[of d i f] by (cases "nullish d") auto

lemma InvoiceTab_step_fileName: "fileName (fst (InvoiceTab_step rnd P w f k)) = name f"
  by (auto simp: InvoiceTab_step_def failed_invoice_def dest: invoice_of_fileName split: sum.splits)

lemma BusinessCardTab_step_fileName: "fileName (fst (BusinessCardTab_step rnd P w f k)) = name f"
  by (auto simp: BusinessCardTab_step_def failed_card_def dest: card_of_fileName split: sum.splits)

lemma InvoiceTab_new_length: "length (InvoiceTab_new rnd P ws fs k) = length fs"
  by (simp add: InvoiceTab_new_def length_run_records)

lemma BusinessCardTab_new_length: "length (BusinessCardTab_new rnd P ws fs k) = length fs"
  by (simp add: BusinessCardTab_new_def length_run_records)

lemma InvoiceTab_new_nth:
  "j < length fs \<Longrightarrow>
   InvoiceTab_new rnd P ws fs k ! j =
     fst (InvoiceTab_step rnd P (ws j) (fs ! j) (InvoiceTab_used rnd P ws (take j fs) k))"
  by (simp add: InvoiceTab_new_def InvoiceTab_used_def nth_run_records)

lemma BusinessCardTab_new_nth:
  "j < length fs \<Longrightarrow>
   BusinessCardTab_new rnd P ws fs k ! j =
     fst (BusinessCardTab_step rnd P (ws j) (fs ! j) (BusinessCardTab_used rnd P ws (take j fs) k))"
  by (simp add: BusinessCardTab_new_def BusinessCardTab_used_def nth_run_records)

lemma InvoiceTab_appended_run:
  "files s \<noteq> [] \<Longrightarrow>
   InvoiceTab_appended s (InvoiceTab_processFiles rnd P ws s k) = InvoiceTab_new rnd P ws (files s) k"
  by (simp add: InvoiceTab_appended_def InvoiceTab_processFiles_run)

lemma BusinessCardTab_appended_run:
  "files s \<noteq> [] \<Longrightarrow>
   BusinessCardTab_appended s (BusinessCardTab_processFiles rnd P ws s k) =
     BusinessCardTab_new rnd P ws (files s) k"
  by (simp add: BusinessCardTab_appended_def BusinessCardTab_processFiles_run)

lemma InvoiceTab_returned: "returned (InvoiceTab_processFiles rnd P ws s k)"
  by (cases "files s = []")
    (simp_all add: returned_def InvoiceTab_processFiles_run InvoiceTab_processFiles_empty)

lemma BusinessCardTab_returned: "returned (BusinessCardTab_processFiles rnd P ws s k)"
  by (cases "files s = []")
    (simp_all add: returned_def BusinessCardTab_processFiles_run BusinessCardTab_processFiles_empty)

section \<open>Runs on the concrete inputs\<close>

lemmas eval_defs =
  InvoiceTab_step_def BusinessCardTab_step_def extractInvoiceData_def extractBusinessCardData_def
  fileToGenerativePart_def invoiceRequest_def businessCardRequest_def
  bindE_def at_index_def demo_parse_def acme_text_def jane_text_def note_text_def
  invoice_of_def card_of_def failed_invoice_def failed_card_def coalesce_def nullish_def
  ident_def substr_def toString36_def answering_def serving_def rejecting_def unreadable_def
  always_rejecting_def always_serving_def mixed_worlds_def scan_def three_scans_def
  counting_draws_def half_draws_def zero_draws_def

lemma queue_files: "files (invoice_queue fs) = fs" "invoices (invoice_queue fs) = []"
  "files (card_queue fs) = fs" "cards (card_queue fs) = []"
  by (simp_all add: invoice_queue_def card_queue_def InvoiceTab_handleFilesSelected_def
      BusinessCardTab_handleFilesSelected_def InvoiceTab_initial_def BusinessCardTab_initial_def)

lemma three_scans_facts: "three_scans \<noteq> []" "length three_scans = 3"
  "map name three_scans = [''scan0.pdf'', ''scan1.pdf'', ''scan2.pdf'']"
  by (simp_all add: three_scans_def scan_def)

lemma mixed_invoice_new:
  "InvoiceTab_new counting_draws demo_parse mixed_worlds three_scans 0 =
     [\<lparr>id' = ''k3x9q0zt1'', fileName = ''scan0.pdf'', invoice_number = Null, invoice_date = Null,
       supplier_name = Str ''Acme Co'', supplier_tax_id = Null, total_amount = Num 150.5,
       currency = Str ''USD'', tax_amount = Num 0, line_items = Arr []\<rparr>,
      \<lparr>id' = ''7ab'', fileName = ''scan1.pdf'', invoice_number = Str ''ERROR'', invoice_date = Null,
       supplier_name = Str ''Extraction Failed'', supplier_tax_id = Null, total_amount = Num 0,
       currency = Str [], tax_amount = Num 0, line_items = Arr []\<rparr>,
      \<lparr>id' = ''z001'', fileName = ''scan2.pdf'', invoice_number = Null, invoice_date = Null,
       supplier_name = Str ''Acme Co'', supplier_tax_id = Null, total_amount = Num 150.5,
       currency = Str ''USD'', tax_amount = Num 0, line_items = Arr []\<rparr>]"
  by (simp add: InvoiceTab_new_def eval_defs)

lemma mixed_card_new:
  "BusinessCardTab_new counting_draws demo_parse mixed_worlds three_scans 0 =
     [\<lparr>id' = ''k3x9q0zt1'', fileName = ''scan0.pdf'', full_name = Str ''Jane Doe'', company = Null,
       job_title = Null, email = Null, phone = Null, website = Null, address = Null\<rparr>,
      \<lparr>id' = ''7ab'', fileName = ''scan1.pdf'', full_name = Str ''Extraction Failed'', company = Null,
       job_title = Null, email = Null, phone = Null, website = Null, address = Null\<rparr>,
      \<lparr>id' = ''z001'', fileName = ''scan2.pdf'', full_name = Str ''Jane Doe'', company = Null,
       job_title = Null, email = Null, phone = Null, website = Null, address = Null\<rparr>]"
  by (simp add: BusinessCardTab_new_def eval_defs)

lemma InvoiceTab_step_failed:
  "extractInvoiceData P w f = Inl e \<Longrightarrow>
   InvoiceTab_step rnd P w f k = (failed_invoice (ident rnd k) f, Suc k)"
  by (simp add: InvoiceTab_step_def)

lemma BusinessCardTab_step_failed:
  "extractBusinessCardData P w f = Inl e \<Longrightarrow>
   BusinessCardTab_step rnd P w f k = (failed_card (ident rnd k) f, Suc k)"
  by (simp add: BusinessCardTab_step_def)

lemma InvoiceTab_step_ok:
  "extractInvoiceData P w f = Inr d \<Longrightarrow> invoice_of (ident rnd k) f d = Inr r \<Longrightarrow>
   InvoiceTab_step rnd P w f k = (r, Suc k)"
  by (simp add: InvoiceTab_step_def)

lemma BusinessCardTab_step_ok:
  "extractBusinessCardData P w f = Inr d \<Longrightarrow> card_of (ident rnd k) f d = Inr r \<Longrightarrow>
   BusinessCardTab_step rnd P w f k = (r, Suc k)"
  by (simp add: BusinessCardTab_step_def)

lemma scan1_rejected_new:
  "InvoiceTab_new counting_draws demo_parse always_rejecting [scan ''scan1.pdf''] 0 =
     [\<lparr>id' = ''k3x9q0zt1'', fileName = ''scan1.pdf'', invoice_number = Str ''ERROR'',
       invoice_date = Null, supplier_name = Str ''Extraction Failed'', supplier_tax_id = Null,
       total_amount = Num 0, currency = Str [], tax_amount = Num 0, line_items = Arr []\<rparr>]"
  by (simp add: InvoiceTab_new_def eval_defs)

lemma scan1_rejected:
  "extractInvoiceData demo_parse (always_rejecting 0) (scan ''scan1.pdf'') =
     Inl (ServiceRejected ''quota exceeded'')"
  by (simp add: eval_defs)

lemma InvoiceTab_reachable_status: "InvoiceTab_reachable u \<Longrightarrow> status u \<noteq> error"
proof (induction rule: InvoiceTab_reachable.induct)
  case invoice_initial
  show ?case by (simp add: InvoiceTab_initial_def)
next
  case (invoice_selected s selectedFiles)
  then show ?case by (simp add: InvoiceTab_handleFilesSelected_def)
next
  case (invoice_started s)
  show ?case by (simp add: InvoiceTab_started_def)
next
  case (invoice_processed s rnd JSON_parse ws k s' k')
  then show ?case
    by (cases "files s = []")
      (auto simp: InvoiceTab_processFiles_empty InvoiceTab_processFiles_run)
qed

lemma BusinessCardTab_reachable_status: "BusinessCardTab_reachable u \<Longrightarrow> status u \<noteq> error"
proof (induction rule: BusinessCardTab_reachable.induct)
  case card_initial
  show ?case by (simp add: BusinessCardTab_initial_def)
next
  case (card_selected s selectedFiles)
  then show ?case by (simp add: BusinessCardTab_handleFilesSelected_def)
next
  case (card_started s)
  show ?case by (simp add: BusinessCardTab_started_def)
next
  case (card_processed s rnd JSON_parse ws k s' k')
  then show ?case
    by (cases "files s = []")
      (auto simp: BusinessCardTab_processFiles_empty BusinessCardTab_processFiles_run)
next
  case (card_copied s b)
  then show ?case by simp
qed

lemma all_rejected_invoice_new:
  "map invoice_number (InvoiceTab_new counting_draws demo_parse always_rejecting three_scans 0) =
     [Str ''ERROR'', Str ''ERROR'', Str ''ERROR'']"
  by (simp add: InvoiceTab_new_def eval_defs)

lemma all_rejected_card_new:
  "map full_name (BusinessCardTab_new counting_draws demo_parse always_rejecting three_scans 0) =
     [Str ''Extraction Failed'', Str ''Extraction Failed'', Str ''Extraction Failed'']"
  by (simp add: BusinessCardTab_new_def eval_defs)

lemma queue_reachable:
  "InvoiceTab_reachable (invoice_queue fs)" "BusinessCardTab_reachable (card_queue fs)"
  unfolding invoice_queue_def card_queue_def
  by (rule invoice_selected[OF invoice_initial], rule card_selected[OF card_initial])

lemma started_reachable:
  "fs \<noteq> [] \<Longrightarrow> InvoiceTab_reachable (InvoiceTab_started (invoice_queue fs))"
  "fs \<noteq> [] \<Longrightarrow> BusinessCardTab_reachable (BusinessCardTab_started (card_queue fs))"
  by (simp_all add: invoice_started card_started queue_reachable queue_files)

lemma later_invoice_new:
  "InvoiceTab_new counting_draws demo_parse always_serving [scan ''scan3.pdf''] 0 =
     [\<lparr>id' = ''k3x9q0zt1'', fileName = ''scan3.pdf'', invoice_number = Null, invoice_date = Null,
       supplier_name = Str ''Acme Co'', supplier_tax_id = Null, total_amount = Num 150.5,
       currency = Str ''USD'', tax_amount = Num 0, line_items = Arr []\<rparr>]"
  by (simp add: InvoiceTab_new_def eval_defs)

lemma later_card_new:
  "BusinessCardTab_new counting_draws demo_parse always_serving [scan ''card2.png''] 0 =
     [\<lparr>id' = ''k3x9q0zt1'', fileName = ''card2.png'', full_name = Str ''Jane Doe'', company = Null,
       job_title = Null, email = Null, phone = Null, website = Null, address = Null\<rparr>]"
  by (simp add: BusinessCardTab_new_def eval_defs)

lemma InvoiceTab_used_update:
  assumes "extractInvoiceData P (ws i) (fs ! i) = Inl e"
    and "extractInvoiceData P w (fs ! i) = Inr d" and "\<not> nullish d"
  shows "InvoiceTab_used rnd P (ws(i := w)) (take j fs) k = InvoiceTab_used rnd P ws (take j fs) k"
  unfolding InvoiceTab_used_def
proof (rule run_counter_cong)
  fix m k'
  assume m: "m < length (take j fs)"
  then have nth: "take j fs ! m = fs ! m" by simp
  show "snd (InvoiceTab_step rnd P ((ws(i := w)) (0 + m)) (take j fs ! m) k') =
        snd (InvoiceTab_step rnd P (ws (0 + m)) (take j fs ! m) k')"
  proof (cases "m = i")
    case True
    have "snd (InvoiceTab_step rnd P w (fs ! i) k') = Suc k'"
      using assms(2,3) by (simp add: InvoiceTab_step_def invoice_of_ok)
    moreover have "snd (InvoiceTab_step rnd P (ws i) (fs ! i) k') = Suc k'"
      using assms(1) by (simp add: InvoiceTab_step_failed)
    ultimately show ?thesis using True nth by simp
  next
    case False
    then show ?thesis by simp
  qed
qed

lemma BusinessCardTab_used_update:
  assumes "extractBusinessCardData P (ws i) (fs ! i) = Inl e"
    and "extractBusinessCardData P w (fs ! i) = Inr d" and "\<not> nullish d"
  shows "BusinessCardTab_used rnd P (ws(i := w)) (take j fs) k =
         BusinessCardTab_used rnd P ws (take j fs) k"
  unfolding BusinessCardTab_used_def
proof (rule run_counter_cong)
  fix m k'
  assume m: "m < length (take j fs)"
  then have nth: "take j fs ! m = fs ! m" by simp
  show "snd (BusinessCardTab_step rnd P ((ws(i := w)) (0 + m)) (take j fs ! m) k') =
        snd (BusinessCardTab_step rnd P (ws (0 + m)) (take j fs ! m) k')"
  proof (cases "m = i")
    case True
    have "snd (BusinessCardTab_step rnd P w (fs ! i) k') = Suc k'"
      using assms(2,3) by (simp add: BusinessCardTab_step_def card_of_ok)
    moreover have "snd (BusinessCardTab_step rnd P (ws i) (fs ! i) k') = Suc k'"
      using assms(1) by (simp add: BusinessCardTab_step_failed)
    ultimately show ?thesis using True nth by simp
  next
    case False
    then show ?thesis by simp
  qed
qed

lemma InvoiceTab_new_update:
  assumes "extractInvoiceData P (ws i) (fs ! i) = Inl e"
    and "extractInvoiceData P w (fs ! i) = Inr d" and "\<not> nullish d"
    and "j < length fs" and "j \<noteq> i"
  shows "InvoiceTab_new rnd P (ws(i := w)) fs k ! j = InvoiceTab_new rnd P ws fs k ! j"
proof -
  have "InvoiceTab_used rnd P (ws(i := w)) (take j fs) k = InvoiceTab_used rnd P ws (take j fs) k"
    using assms(1,2,3) by (rule InvoiceTab_used_update)
  with assms(4,5) show ?thesis by (simp add: InvoiceTab_new_nth)
qed

lemma BusinessCardTab_new_update:
  assumes "extractBusinessCardData P (ws i) (fs ! i) = Inl e"
    and "extractBusinessCardData P w (fs ! i) = Inr d" and "\<not> nullish d"
    and "j < length fs" and "j \<noteq> i"
  shows "BusinessCardTab_new rnd P (ws(i := w)) fs k ! j = BusinessCardTab_new rnd P ws fs k ! j"
proof -
  have "BusinessCardTab_used rnd P (ws(i := w)) (take j fs) k =
        BusinessCardTab_used rnd P ws (take j fs) k"
    using assms(1,2,3) by (rule BusinessCardTab_used_update)
  with assms(4,5) show ?thesis by (simp add: BusinessCardTab_new_nth)
qed

lemma mixed_runs:
  "InvoiceTab_new counting_draws demo_parse mixed_worlds three_scans 0 =
     [acme_invoice ''k3x9q0zt1'' ''scan0.pdf'', failed_invoice ''7ab'' (scan ''scan1.pdf''),
      acme_invoice ''z001'' ''scan2.pdf'']"
  "InvoiceTab_new counting_draws demo_parse (mixed_worlds(Suc 0 := serving)) three_scans 0 =
     [acme_invoice ''k3x9q0zt1'' ''scan0.pdf'', acme_invoice ''7ab'' ''scan1.pdf'',
      acme_invoice ''z001'' ''scan2.pdf'']"
  "BusinessCardTab_new counting_draws demo_parse mixed_worlds three_scans 0 =
     [jane_partial_card ''k3x9q0zt1'' ''scan0.pdf'', failed_card ''7ab'' (scan ''scan1.pdf''),
      jane_partial_card ''z001'' ''scan2.pdf'']"
  "BusinessCardTab_new counting_draws demo_parse (mixed_worlds(Suc 0 := serving)) three_scans 0 =
     [jane_partial_card ''k3x9q0zt1'' ''scan0.pdf'', jane_partial_card ''7ab'' ''scan1.pdf'',
      jane_partial_card ''z001'' ''scan2.pdf'']"
  by (simp_all add: InvoiceTab_new_def BusinessCardTab_new_def eval_defs acme_invoice_def
      jane_partial_card_def)

lemma second_scan:
  "three_scans ! Suc 0 = scan ''scan1.pdf''"
  "extractInvoiceData demo_parse (mixed_worlds (Suc 0)) (scan ''scan1.pdf'') = Inl ReadRejected"
  "extractInvoiceData demo_parse serving (scan ''scan1.pdf'') = Inr acme_raw"
  "extractBusinessCardData demo_parse (mixed_worlds (Suc 0)) (scan ''scan1.pdf'') = Inl ReadRejected"
  "extractBusinessCardData demo_parse serving (scan ''scan1.pdf'') = Inr jane_raw"
  "\<not> nullish acme_raw" "\<not> nullish jane_raw"
  by (simp_all add: eval_defs acme_raw_def jane_raw_def)

lemma coalesce_present: "\<not> nullish v \<Longrightarrow> coalesce v d = v"
  by (simp add: coalesce_def)

lemma complete_not_nullish:
  "complete d ((p, x) # shape) \<Longrightarrow> \<not> nullish d"
  by (cases d) (auto simp: complete_def raw_def nullish_def)

lemma full_raw_complete:
  "complete full_invoice_raw invoice_shape" "complete full_card_raw card_shape"
  by (simp_all add: complete_def invoice_shape_def card_shape_def full_invoice_raw_def
      full_card_raw_def raw_def nullish_def)





lemma field_text_simps:
  "field_text nf Null = Inr []" "field_text nf Undefined = Inr []" "field_text nf (Str x) = Inr x"
  by (simp_all add: field_text_def or_else_def)

lemma contact_line_export: "contact_line nf c = export_line nf c"
  by (simp add: contact_line_def export_line_def card_shape_def bindE_def split: sum.splits)

lemma getGoogleContactsText_lines:
  "getGoogleContactsText nf cs =
     bindE (sequenceE (map (export_line nf) cs)) (\<lambda>lines. Inr (join [CHR 0x0A] lines))"
proof -
  have "contact_line nf = export_line nf"
    by (rule ext) (rule contact_line_export)
  then show ?thesis
    by (cases cs) (simp_all add: getGoogleContactsText_def bindE_def)
qed

lemma sequenceE_length: "sequenceE rs = Inr xs \<Longrightarrow> length xs = length rs"
  by (induction rs arbitrary: xs) (auto simp: bindE_def split: sum.splits)

lemma run_ids:
  assumes step: "\<And>i f k. k < nxt i f k \<and> idf (one i f k) = g (nxt i f k - 1)"
  shows "\<exists>ms. map idf (run_records one nxt fs i k) = map g ms \<and> distinct ms \<and>
              set ms \<subseteq> {k..<run_counter nxt fs i k} \<and> k \<le> run_counter nxt fs i k"
proof (induction fs arbitrary: i k)
  case Nil
  show ?case by simp
next
  case (Cons f fs)
  from Cons.IH[of "Suc i" "nxt i f k"] obtain ms where
    ms: "map idf (run_records one nxt fs (Suc i) (nxt i f k)) = map g ms" "distinct ms"
      "set ms \<subseteq> {nxt i f k..<run_counter nxt fs (Suc i) (nxt i f k)}"
      "nxt i f k \<le> run_counter nxt fs (Suc i) (nxt i f k)"
    by blast
  from step[of k i f] have lt: "k < nxt i f k" and hd: "idf (one i f k) = g (nxt i f k - 1)"
    by simp_all
  let ?m = "nxt i f k - 1"
  have "map idf (run_records one nxt (f # fs) i k) = map g (?m # ms)"
    using hd ms(1) by simp
  moreover have "distinct (?m # ms)"
  proof -
    have "?m \<notin> set ms"
    proof
      assume "?m \<in> set ms"
      with ms(3) have "nxt i f k \<le> ?m" by auto
      with lt show False by simp
    qed
    with ms(2) show ?thesis by simp
  qed
  moreover have "set (?m # ms) \<subseteq> {k..<run_counter nxt (f # fs) i k}"
    using ms(3,4) lt by auto
  moreover have "k \<le> run_counter nxt (f # fs) i k"
    using ms(4) lt by simp
  ultimately show ?case by blast
qed

lemma InvoiceTab_step_id:
  "k < snd (InvoiceTab_step rnd P w f k) \<and>
   id' (fst (InvoiceTab_step rnd P w f k)) = ident rnd (snd (InvoiceTab_step rnd P w f k) - 1)"
  by (auto simp: InvoiceTab_step_def failed_invoice_def dest: invoice_of_fileName split: sum.splits)

lemma BusinessCardTab_step_id:
  "k < snd (BusinessCardTab_step rnd P w f k) \<and>
   id' (fst (BusinessCardTab_step rnd P w f k)) =
     ident rnd (snd (BusinessCardTab_step rnd P w f k) - 1)"
  by (auto simp: BusinessCardTab_step_def failed_card_def dest: card_of_fileName split: sum.splits)

lemma InvoiceTab_used_run:
  "files s \<noteq> [] \<Longrightarrow>
   snd (InvoiceTab_processFiles rnd P ws s k) = InvoiceTab_used rnd P ws (files s) k"
  by (simp add: InvoiceTab_processFiles_run)

lemma BusinessCardTab_used_run:
  "files s \<noteq> [] \<Longrightarrow>
   snd (BusinessCardTab_processFiles rnd P ws s k) = BusinessCardTab_used rnd P ws (files s) k"
  by (simp add: BusinessCardTab_processFiles_run)

lemma InvoiceTab_new_ids:
  "\<exists>ms. map id' (InvoiceTab_new rnd P ws fs k) = map (ident rnd) ms \<and> distinct ms \<and>
        set ms \<subseteq> {k..<InvoiceTab_used rnd P ws fs k}"
proof -
  have "\<exists>ms. map id' (InvoiceTab_new rnd P ws fs k) = map (ident rnd) ms \<and> distinct ms \<and>
        set ms \<subseteq> {k..<InvoiceTab_used rnd P ws fs k} \<and> k \<le> InvoiceTab_used rnd P ws fs k"
    unfolding InvoiceTab_new_def InvoiceTab_used_def
    by (rule run_ids) (rule InvoiceTab_step_id)
  then show ?thesis by blast
qed

lemma BusinessCardTab_new_ids:
  "\<exists>ms. map id' (BusinessCardTab_new rnd P ws fs k) = map (ident rnd) ms \<and> distinct ms \<and>
        set ms \<subseteq> {k..<BusinessCardTab_used rnd P ws fs k}"
proof -
  have "\<exists>ms. map id' (BusinessCardTab_new rnd P ws fs k) = map (ident rnd) ms \<and> distinct ms \<and>
        set ms \<subseteq> {k..<BusinessCardTab_used rnd P ws fs k} \<and>
        k \<le> BusinessCardTab_used rnd P ws fs k"
    unfolding BusinessCardTab_new_def BusinessCardTab_used_def
    by (rule run_ids) (rule BusinessCardTab_step_id)
  then show ?thesis by blast
qed

text \<open>What follows for the identifiers of any list of records whose identifiers are made
  from distinct draws among those numbered \<open>k\<close> to \<open>k' - 1\<close>.\<close>

lemma ids_of_draws:
  assumes "map idf rs = map (ident rnd) ms" and "distinct ms" and "set ms \<subseteq> {k..<k'}"
  shows "(\<forall>r\<in>set rs. \<exists>m. k \<le> m \<and> m < k' \<and> idf r = take 9 (rnd m)) \<and>
         (distinct (map (ident rnd) [k..<k']) \<longrightarrow> distinct (map idf rs)) \<and>
         ((\<forall>m. k \<le> m \<and> m < k' \<longrightarrow> rnd m \<noteq> []) \<longrightarrow> (\<forall>r\<in>set rs. idf r \<noteq> []))"
proof (intro conjI impI)
  have mem: "\<exists>m. k \<le> m \<and> m < k' \<and> idf r = ident rnd m" if "r \<in> set rs" for r
  proof -
    from that have "idf r \<in> set (map idf rs)" by simp
    then have "idf r \<in> ident rnd ` set ms" using assms(1) by simp
    then obtain m where m: "m \<in> set ms" "idf r = ident rnd m" by blast
    from m(1) assms(3) have "m \<in> {k..<k'}" by blast
    with m(2) show ?thesis by auto
  qed
  then show "\<forall>r\<in>set rs. \<exists>m. k \<le> m \<and> m < k' \<and> idf r = take 9 (rnd m)"
    by (simp add: ident_take)
  show "distinct (map idf rs)" if "distinct (map (ident rnd) [k..<k'])"
  proof -
    from that have "inj_on (ident rnd) {k..<k'}" by (simp add: distinct_map)
    then have "inj_on (ident rnd) (set ms)" using assms(3) by (rule inj_on_subset)
    with assms(1,2) show ?thesis by (simp add: distinct_map)
  qed
  show "\<forall>r\<in>set rs. idf r \<noteq> []" if "\<forall>m. k \<le> m \<and> m < k' \<longrightarrow> rnd m \<noteq> []"
  proof
    fix r assume "r \<in> set rs"
    from mem[OF this] obtain m where "k \<le> m" "m < k'" "idf r = ident rnd m" by blast
    with that show "idf r \<noteq> []" by (simp add: ident_take)
  qed
qed

lemma half_zero_runs:
  "map id' (InvoiceTab_new half_draws demo_parse mixed_worlds three_scans 0) = [''i'', ''i'', ''i'']"
  "map id' (InvoiceTab_new zero_draws demo_parse mixed_worlds three_scans 0) = [[], [], []]"
  "map id' (BusinessCardTab_new half_draws demo_parse mixed_worlds three_scans 0) =
     [''i'', ''i'', ''i'']"
  "map id' (BusinessCardTab_new zero_draws demo_parse mixed_worlds three_scans 0) = [[], [], []]"
  by (simp_all add: InvoiceTab_new_def BusinessCardTab_new_def eval_defs)

lemma counting_used:
  "InvoiceTab_used counting_draws demo_parse mixed_worlds three_scans 0 = 3"
  "BusinessCardTab_used counting_draws demo_parse mixed_worlds three_scans 0 = 3"
  by (simp_all add: InvoiceTab_used_def BusinessCardTab_used_def eval_defs)

lemma counting_idents:
  "map (ident counting_draws) [0..<3] = [''k3x9q0zt1'', ''7ab'', ''z001'']"
  by (simp add: upt_rec ident_take counting_draws_def)

section \<open>The clipboard text\<close>

text \<open>
  When no conversion throws, the text is the lines of the records joined by a line feed,
  each line the texts of the declared fields joined by \<open>; \<close>; \<open>null\<close> gives the empty
  text and a string itself.
\<close>

lemma clipboard_lines:
  "getGoogleContactsText nf cs =
     bindE (sequenceE (map (export_line nf) cs)) (\<lambda>lines. Inr (join [CHR 0x0A] lines)) \<and>
   export_line nf c =
     bindE (sequenceE (map (field_text nf)
              [full_name c, company c, job_title c, email c, phone c, website c, address c]))
       (\<lambda>texts. Inr (join ''; '' texts)) \<and>
   field_text nf Null = Inr [] \<and>
   field_text nf (Str x) = Inr x"
  by (simp add: getGoogleContactsText_lines[symmetric] export_line_def card_shape_def
      field_text_simps)

text \<open>Splitting at a separator undoes joining with it when no joined string contains it.\<close>

lemma split_no_sep: "c \<notin> set x \<Longrightarrow> split c x = [x]"
  by (induction x) auto

lemma split_append_sep: "c \<notin> set x \<Longrightarrow> split c (x @ c # ys) = x # split c ys"
  by (induction x) auto

lemma split_join:
  "xs \<noteq> [] \<Longrightarrow> \<forall>x\<in>set xs. c \<notin> set x \<Longrightarrow> split c (join [c] xs) = xs"
proof (induction xs)
  case Nil
  then show ?case by simp
next
  case (Cons x xs)
  show ?case
  proof (cases xs)
    case Nil
    with Cons.prems show ?thesis by (simp add: split_no_sep)
  next
    case (Cons y ys)
    with Cons.IH Cons.prems show ?thesis by (simp add: split_append_sep)
  qed
qed

text \<open>So the text has exactly one line per record when no conversion throws and no
  record's line contains a line feed.\<close>

lemma clipboard_lines_split:
  assumes "cs \<noteq> []" and "sequenceE (map (export_line nf) cs) = Inr ls"
    and "\<forall>l\<in>set ls. CHR 0x0A \<notin> set l"
  shows "getGoogleContactsText nf cs = Inr (join [CHR 0x0A] ls) \<and>
         split (CHR 0x0A) (join [CHR 0x0A] ls) = ls \<and> length ls = length cs"
proof -
  from assms(2) have len: "length ls = length cs"
    using sequenceE_length by fastforce
  with assms(1) have "ls \<noteq> []" by auto
  with assms(2,3) len show ?thesis
    by (simp add: getGoogleContactsText_lines bindE_def split_join)
qed

section \<open>Normalization inside a batch\<close>

lemma invoice_of_normalizes:
  "\<not> nullish d \<Longrightarrow>
   \<exists>r. invoice_of i f d = Inr r \<and> id' r = i \<and> fileName r = name f \<and> normalizes r d invoice_shape"
  by (simp add: invoice_of_ok normalizes_def invoice_shape_def coalesce_def)

lemma card_of_normalizes:
  "\<not> nullish d \<Longrightarrow>
   \<exists>c. card_of i f d = Inr c \<and> id' c = i \<and> fileName c = name f \<and> normalizes c d card_shape"
  by (simp add: card_of_ok normalizes_def card_shape_def coalesce_def)

lemma InvoiceTab_new_normalizes:
  assumes "i < length fs" and "extractInvoiceData P (ws i) (fs ! i) = Inr d" and "\<not> nullish d"
  shows "normalizes (InvoiceTab_new rnd P ws fs k ! i) d invoice_shape"
proof -
  let ?k = "InvoiceTab_used rnd P ws (take i fs) k"
  from invoice_of_normalizes[OF assms(3)] obtain r where
    r: "invoice_of (ident rnd ?k) (fs ! i) d = Inr r" "normalizes r d invoice_shape"
    by blast
  from assms(2) r(1) have "InvoiceTab_step rnd P (ws i) (fs ! i) ?k = (r, Suc ?k)"
    by (rule InvoiceTab_step_ok)
  with assms(1) r(2) show ?thesis by (simp add: InvoiceTab_new_nth)
qed

lemma BusinessCardTab_new_normalizes:
  assumes "i < length fs" and "extractBusinessCardData P (ws i) (fs ! i) = Inr d"
    and "\<not> nullish d"
  shows "normalizes (BusinessCardTab_new rnd P ws fs k ! i) d card_shape"
proof -
  let ?k = "BusinessCardTab_used rnd P ws (take i fs) k"
  from card_of_normalizes[OF assms(3)] obtain r where
    r: "card_of (ident rnd ?k) (fs ! i) d = Inr r" "normalizes r d card_shape"
    by blast
  from assms(2) r(1) have "BusinessCardTab_step rnd P (ws i) (fs ! i) ?k = (r, Suc ?k)"
    by (rule BusinessCardTab_step_ok)
  with assms(1) r(2) show ?thesis by (simp add: BusinessCardTab_new_nth)
qed

lemma first_scan:
  "three_scans ! 0 = scan ''scan0.pdf''"
  "extractInvoiceData demo_parse (mixed_worlds 0) (scan ''scan0.pdf'') = Inr acme_raw"
  "extractBusinessCardData demo_parse (mixed_worlds 0) (scan ''scan0.pdf'') = Inr jane_raw"
  by (simp_all add: eval_defs acme_raw_def jane_raw_def)

section \<open>The records of failing and of served files\<close>

lemma InvoiceTab_new_failed:
  assumes "i < length fs" and "extractInvoiceData P (ws i) (fs ! i) = Inl e"
  shows "fileName (InvoiceTab_new rnd P ws fs k ! i) = name (fs ! i) \<and>
         invoice_number (InvoiceTab_new rnd P ws fs k ! i) = Str ''ERROR'' \<and>
         supplier_name (InvoiceTab_new rnd P ws fs k ! i) = Str ''Extraction Failed'' \<and>
         invoice_date (InvoiceTab_new rnd P ws fs k ! i) = Null \<and>
         supplier_tax_id (InvoiceTab_new rnd P ws fs k ! i) = Null \<and>
         total_amount (InvoiceTab_new rnd P ws fs k ! i) = Num 0 \<and>
         currency (InvoiceTab_new rnd P ws fs k ! i) = Str [] \<and>
         tax_amount (InvoiceTab_new rnd P ws fs k ! i) = Num 0 \<and>
         line_items (InvoiceTab_new rnd P ws fs k ! i) = Arr []"
  using assms by (simp add: InvoiceTab_new_nth InvoiceTab_step_failed failed_invoice_def)

lemma BusinessCardTab_new_failed:
  assumes "i < length fs" and "extractBusinessCardData P (ws i) (fs ! i) = Inl e"
  shows "fileName (BusinessCardTab_new rnd P ws fs k ! i) = name (fs ! i) \<and>
         full_name (BusinessCardTab_new rnd P ws fs k ! i) = Str ''Extraction Failed'' \<and>
         company (BusinessCardTab_new rnd P ws fs k ! i) = Null \<and>
         job_title (BusinessCardTab_new rnd P ws fs k ! i) = Null \<and>
         email (BusinessCardTab_new rnd P ws fs k ! i) = Null \<and>
         phone (BusinessCardTab_new rnd P ws fs k ! i) = Null \<and>
         website (BusinessCardTab_new rnd P ws fs k ! i) = Null \<and>
         address (BusinessCardTab_new rnd P ws fs k ! i) = Null"
  using assms by (simp add: BusinessCardTab_new_nth BusinessCardTab_step_failed failed_card_def)

lemma InvoiceTab_new_served:
  assumes "j < length fs" and "extractInvoiceData P (ws j) (fs ! j) = Inr d" and "\<not> nullish d"
  shows "fileName (InvoiceTab_new rnd P ws fs k ! j) = name (fs ! j) \<and>
         normalizes (InvoiceTab_new rnd P ws fs k ! j) d invoice_shape"
  using assms by (simp add: InvoiceTab_new_normalizes) (simp add: InvoiceTab_new_nth InvoiceTab_step_fileName)

lemma BusinessCardTab_new_served:
  assumes "j < length fs" and "extractBusinessCardData P (ws j) (fs ! j) = Inr d"
    and "\<not> nullish d"
  shows "fileName (BusinessCardTab_new rnd P ws fs k ! j) = name (fs ! j) \<and>
         normalizes (BusinessCardTab_new rnd P ws fs k ! j) d card_shape"
  using assms
  by (simp add: BusinessCardTab_new_normalizes)
    (simp add: BusinessCardTab_new_nth BusinessCardTab_step_fileName)

lemma mixed_served_new:
  "InvoiceTab_new counting_draws demo_parse (mixed_worlds(Suc 0 := serving)) three_scans 0 =
     [\<lparr>id' = ''k3x9q0zt1'', fileName = ''scan0.pdf'', invoice_number = Null, invoice_date = Null,
       supplier_name = Str ''Acme Co'', supplier_tax_id = Null, total_amount = Num 150.5,
       currency = Str ''USD'', tax_amount = Num 0, line_items = Arr []\<rparr>,
      \<lparr>id' = ''7ab'', fileName = ''scan1.pdf'', invoice_number = Null, invoice_date = Null,
       supplier_name = Str ''Acme Co'', supplier_tax_id = Null, total_amount = Num 150.5,
       currency = Str ''USD'', tax_amount = Num 0, line_items = Arr []\<rparr>,
      \<lparr>id' = ''z001'', fileName = ''scan2.pdf'', invoice_number = Null, invoice_date = Null,
       supplier_name = Str ''Acme Co'', supplier_tax_id = Null, total_amount = Num 150.5,
       currency = Str ''USD'', tax_amount = Num 0, line_items = Arr []\<rparr>]"
  "BusinessCardTab_new counting_draws demo_parse (mixed_worlds(Suc 0 := serving)) three_scans 0 =
     [\<lparr>id' = ''k3x9q0zt1'', fileName = ''scan0.pdf'', full_name = Str ''Jane Doe'', company = Null,
       job_title = Null, email = Null, phone = Null, website = Null, address = Null\<rparr>,
      \<lparr>id' = ''7ab'', fileName = ''scan1.pdf'', full_name = Str ''Jane Doe'', company = Null,
       job_title = Null, email = Null, phone = Null, website = Null, address = Null\<rparr>,
      \<lparr>id' = ''z001'', fileName = ''scan2.pdf'', full_name = Str ''Jane Doe'', company = Null,
       job_title = Null, email = Null, phone = Null, website = Null, address = Null\<rparr>]"
  by (simp_all add: InvoiceTab_new_def BusinessCardTab_new_def eval_defs)

section \<open>The properties of the specification\<close>

text \<open>
  C1. For every batch run over a non-empty file queue, exactly one record is appended to
  the results per submitted file: the run returns, the records it appends are as many as
  the files, and the record at position \<open>i\<close> carries the name of the \<open>i\<close>-th file. This
  holds for the invoice tab and for the business card tab, under every source of
  randomness, parser and answers of the world.
\<close>

theorem one_record_per_file:
  assumes "files s \<noteq> []" and "files t \<noteq> []"
  shows "(\<exists>s' k' new. InvoiceTab_processFiles rnd P ws s k = (Inr s', k') \<and>
            invoices s' = invoices s @ new \<and> length new = length (files s) \<and>
            (\<forall>i<length (files s). fileName (new ! i) = name (files s ! i))) \<and>
         (\<exists>t' k' new. BusinessCardTab_processFiles rnd P ws t k = (Inr t', k') \<and>
            cards t' = cards t @ new \<and> length new = length (files t) \<and>
            (\<forall>i<length (files t). fileName (new ! i) = name (files t ! i)))"
proof
  show "\<exists>s' k' new. InvoiceTab_processFiles rnd P ws s k = (Inr s', k') \<and>
            invoices s' = invoices s @ new \<and> length new = length (files s) \<and>
            (\<forall>i<length (files s). fileName (new ! i) = name (files s ! i))"
    using assms(1)
    by (simp add: InvoiceTab_processFiles_run InvoiceTab_new_length InvoiceTab_new_nth
        InvoiceTab_step_fileName)
  show "\<exists>t' k' new. BusinessCardTab_processFiles rnd P ws t k = (Inr t', k') \<and>
            cards t' = cards t @ new \<and> length new = length (files t) \<and>
            (\<forall>i<length (files t). fileName (new ! i) = name (files t ! i))"
    using assms(2)
    by (simp add: BusinessCardTab_processFiles_run BusinessCardTab_new_length
        BusinessCardTab_new_nth BusinessCardTab_step_fileName)
qed

text \<open>The mixed batch of three scans, in both tabs.\<close>

theorem one_record_per_file_witness:
  "files (invoice_queue three_scans) \<noteq> [] \<and> files (card_queue three_scans) \<noteq> [] \<and>
   (\<exists>s' k' new.
      InvoiceTab_processFiles counting_draws demo_parse mixed_worlds
        (invoice_queue three_scans) 0 = (Inr s', k') \<and>
      invoices s' = invoices (invoice_queue three_scans) @ new \<and>
      length new = length (files (invoice_queue three_scans)) \<and>
      map fileName new = [''scan0.pdf'', ''scan1.pdf'', ''scan2.pdf'']) \<and>
   (\<exists>t' k' new.
      BusinessCardTab_processFiles counting_draws demo_parse mixed_worlds
        (card_queue three_scans) 0 = (Inr t', k') \<and>
      cards t' = cards (card_queue three_scans) @ new \<and>
      length new = length (files (card_queue three_scans)) \<and>
      map fileName new = [''scan0.pdf'', ''scan1.pdf'', ''scan2.pdf''])"
  using one_record_per_file[of "invoice_queue three_scans" "card_queue three_scans"
      counting_draws demo_parse mixed_worlds 0]
  by (simp add: queue_files three_scans_facts InvoiceTab_processFiles_run
      BusinessCardTab_processFiles_run mixed_invoice_new mixed_card_new)

text \<open>
  C2. A file whose extraction fails (the file cannot be read, the model call is rejected,
  the response has no text or cannot be parsed) neither makes the run throw nor ends it.
  The run returns with one record per file. The record in the failing file's position
  has that file's name and the failure markers: for an invoice \<open>invoice_number = "ERROR"\<close>,
  \<open>supplier_name = "Extraction Failed"\<close>, zero amounts, the empty currency, no line items
  and \<open>null\<close> elsewhere; for a business card \<open>full_name = "Extraction Failed"\<close> and \<open>null\<close>
  elsewhere. Every other record is the one the run appends when the world answers the
  failing file with a result instead (any result the normalization accepts), all else
  equal; and the record of every file that is served is the normalization of what its
  extraction returned, under that file's name.
\<close>

theorem failure_isolated:
  assumes "files s \<noteq> []" and "files t \<noteq> []"
  shows "returned (InvoiceTab_processFiles rnd P ws s k) \<and>
         length (InvoiceTab_appended s (InvoiceTab_processFiles rnd P ws s k)) = length (files s) \<and>
         (\<forall>i<length (files s). \<forall>e. extractInvoiceData P (ws i) (files s ! i) = Inl e \<longrightarrow>
            fileName (InvoiceTab_appended s (InvoiceTab_processFiles rnd P ws s k) ! i) =
              name (files s ! i) \<and>
            invoice_number (InvoiceTab_appended s (InvoiceTab_processFiles rnd P ws s k) ! i) =
              Str ''ERROR'' \<and>
            supplier_name (InvoiceTab_appended s (InvoiceTab_processFiles rnd P ws s k) ! i) =
              Str ''Extraction Failed'' \<and>
            invoice_date (InvoiceTab_appended s (InvoiceTab_processFiles rnd P ws s k) ! i) = Null \<and>
            supplier_tax_id (InvoiceTab_appended s (InvoiceTab_processFiles rnd P ws s k) ! i) =
              Null \<and>
            total_amount (InvoiceTab_appended s (InvoiceTab_processFiles rnd P ws s k) ! i) =
              Num 0 \<and>
            currency (InvoiceTab_appended s (InvoiceTab_processFiles rnd P ws s k) ! i) = Str [] \<and>
            tax_amount (InvoiceTab_appended s (InvoiceTab_processFiles rnd P ws s k) ! i) = Num 0 \<and>
            line_items (InvoiceTab_appended s (InvoiceTab_processFiles rnd P ws s k) ! i) = Arr [] \<and>
            (\<forall>w d j. extractInvoiceData P w (files s ! i) = Inr d \<and> \<not> nullish d \<and>
                 j < length (files s) \<and> j \<noteq> i \<longrightarrow>
               InvoiceTab_appended s (InvoiceTab_processFiles rnd P ws s k) ! j =
               InvoiceTab_appended s (InvoiceTab_processFiles rnd P (ws(i := w)) s k) ! j)) \<and>
         (\<forall>j<length (files s). \<forall>d. extractInvoiceData P (ws j) (files s ! j) = Inr d \<and>
              \<not> nullish d \<longrightarrow>
            fileName (InvoiceTab_appended s (InvoiceTab_processFiles rnd P ws s k) ! j) =
              name (files s ! j) \<and>
            normalizes (InvoiceTab_appended s (InvoiceTab_processFiles rnd P ws s k) ! j) d
              invoice_shape) \<and>
         returned (BusinessCardTab_processFiles rnd P ws t k) \<and>
         length (BusinessCardTab_appended t (BusinessCardTab_processFiles rnd P ws t k)) =
           length (files t) \<and>
         (\<forall>i<length (files t). \<forall>e. extractBusinessCardData P (ws i) (files t ! i) = Inl e \<longrightarrow>
            fileName (BusinessCardTab_appended t (BusinessCardTab_processFiles rnd P ws t k) ! i) =
              name (files t ! i) \<and>
            full_name (BusinessCardTab_appended t (BusinessCardTab_processFiles rnd P ws t k) ! i) =
              Str ''Extraction Failed'' \<and>
            company (BusinessCardTab_appended t (BusinessCardTab_processFiles rnd P ws t k) ! i) =
              Null \<and>
            job_title (BusinessCardTab_appended t (BusinessCardTab_processFiles rnd P ws t k) ! i) =
              Null \<and>
            email (BusinessCardTab_appended t (BusinessCardTab_processFiles rnd P ws t k) ! i) =
              Null \<and>
            phone (BusinessCardTab_appended t (BusinessCardTab_processFiles rnd P ws t k) ! i) =
              Null \<and>
            website (BusinessCardTab_appended t (BusinessCardTab_processFiles rnd P ws t k) ! i) =
              Null \<and>
            address (BusinessCardTab_appended t (BusinessCardTab_processFiles rnd P ws t k) ! i) =
              Null \<and>
            (\<forall>w d j. extractBusinessCardData P w (files t ! i) = Inr d \<and> \<not> nullish d \<and>
                 j < length (files t) \<and> j \<noteq> i \<longrightarrow>
               BusinessCardTab_appended t (BusinessCardTab_processFiles rnd P ws t k) ! j =
               BusinessCardTab_appended t (BusinessCardTab_processFiles rnd P (ws(i := w)) t k) ! j)) \<and>
         (\<forall>j<length (files t). \<forall>d. extractBusinessCardData P (ws j) (files t ! j) = Inr d \<and>
              \<not> nullish d \<longrightarrow>
            fileName (BusinessCardTab_appended t (BusinessCardTab_processFiles rnd P ws t k) ! j) =
              name (files t ! j) \<and>
            normalizes (BusinessCardTab_appended t (BusinessCardTab_processFiles rnd P ws t k) ! j) d
              card_shape)"
proof -
  have sa: "InvoiceTab_appended s (InvoiceTab_processFiles rnd P ws' s k) =
            InvoiceTab_new rnd P ws' (files s) k" for ws'
    using assms(1) by (rule InvoiceTab_appended_run)
  have ta: "BusinessCardTab_appended t (BusinessCardTab_processFiles rnd P ws' t k) =
            BusinessCardTab_new rnd P ws' (files t) k" for ws'
    using assms(2) by (rule BusinessCardTab_appended_run)
  have inv: "InvoiceTab_new rnd P ws (files s) k ! j = InvoiceTab_new rnd P (ws(i := w)) (files s) k ! j"
    if "extractInvoiceData P (ws i) (files s ! i) = Inl e"
      and "extractInvoiceData P w (files s ! i) = Inr d" and "\<not> nullish d"
      and "j < length (files s)" and "j \<noteq> i" for i e w d j
  proof -
    from that have "InvoiceTab_new rnd P (ws(i := w)) (files s) k ! j =
                    InvoiceTab_new rnd P ws (files s) k ! j"
      by (rule InvoiceTab_new_update)
    then show ?thesis by simp
  qed
  have crd: "BusinessCardTab_new rnd P ws (files t) k ! j =
             BusinessCardTab_new rnd P (ws(i := w)) (files t) k ! j"
    if "extractBusinessCardData P (ws i) (files t ! i) = Inl e"
      and "extractBusinessCardData P w (files t ! i) = Inr d" and "\<not> nullish d"
      and "j < length (files t)" and "j \<noteq> i" for i e w d j
  proof -
    from that have "BusinessCardTab_new rnd P (ws(i := w)) (files t) k ! j =
                    BusinessCardTab_new rnd P ws (files t) k ! j"
      by (rule BusinessCardTab_new_update)
    then show ?thesis by simp
  qed
  show ?thesis
    unfolding sa ta
  proof (intro conjI allI impI)
    show "returned (InvoiceTab_processFiles rnd P ws s k)" by (rule InvoiceTab_returned)
    show "returned (BusinessCardTab_processFiles rnd P ws t k)" by (rule BusinessCardTab_returned)
    show "length (InvoiceTab_new rnd P ws (files s) k) = length (files s)"
      by (rule InvoiceTab_new_length)
    show "length (BusinessCardTab_new rnd P ws (files t) k) = length (files t)"
      by (rule BusinessCardTab_new_length)
  qed (use inv crd InvoiceTab_new_failed BusinessCardTab_new_failed InvoiceTab_new_served
      BusinessCardTab_new_served in \<open>(blast | simp)+\<close>)
qed

text \<open>
  The mixed batch: the second of three files cannot be read. Three records come out in the
  order of the files, only the second has the failure markers, and the first and third
  are those of the run in which the second file is served.
\<close>

theorem failure_isolated_witness:
  "files (invoice_queue three_scans) \<noteq> [] \<and> files (card_queue three_scans) \<noteq> [] \<and>
   1 < length (files (invoice_queue three_scans)) \<and>
   extractInvoiceData demo_parse (mixed_worlds 1) (files (invoice_queue three_scans) ! 1) =
     Inl ReadRejected \<and>
   extractInvoiceData demo_parse serving (files (invoice_queue three_scans) ! 1) = Inr acme_raw \<and>
   \<not> nullish acme_raw \<and>
   returned (InvoiceTab_processFiles counting_draws demo_parse mixed_worlds
      (invoice_queue three_scans) 0) \<and>
   InvoiceTab_appended (invoice_queue three_scans)
     (InvoiceTab_processFiles counting_draws demo_parse mixed_worlds (invoice_queue three_scans) 0) =
     [\<lparr>id' = ''k3x9q0zt1'', fileName = ''scan0.pdf'', invoice_number = Null, invoice_date = Null,
       supplier_name = Str ''Acme Co'', supplier_tax_id = Null, total_amount = Num 150.5,
       currency = Str ''USD'', tax_amount = Num 0, line_items = Arr []\<rparr>,
      \<lparr>id' = ''7ab'', fileName = ''scan1.pdf'', invoice_number = Str ''ERROR'', invoice_date = Null,
       supplier_name = Str ''Extraction Failed'', supplier_tax_id = Null, total_amount = Num 0,
       currency = Str [], tax_amount = Num 0, line_items = Arr []\<rparr>,
      \<lparr>id' = ''z001'', fileName = ''scan2.pdf'', invoice_number = Null, invoice_date = Null,
       supplier_name = Str ''Acme Co'', supplier_tax_id = Null, total_amount = Num 150.5,
       currency = Str ''USD'', tax_amount = Num 0, line_items = Arr []\<rparr>] \<and>
   map invoice_number (InvoiceTab_appended (invoice_queue three_scans)
     (InvoiceTab_processFiles counting_draws demo_parse mixed_worlds (invoice_queue three_scans) 0)) =
     [Null, Str ''ERROR'', Null] \<and>
   map supplier_name (InvoiceTab_appended (invoice_queue three_scans)
     (InvoiceTab_processFiles counting_draws demo_parse mixed_worlds (invoice_queue three_scans) 0)) =
     [Str ''Acme Co'', Str ''Extraction Failed'', Str ''Acme Co''] \<and>
   InvoiceTab_appended (invoice_queue three_scans)
     (InvoiceTab_processFiles counting_draws demo_parse (mixed_worlds(1 := serving))
        (invoice_queue three_scans) 0) =
     [\<lparr>id' = ''k3x9q0zt1'', fileName = ''scan0.pdf'', invoice_number = Null, invoice_date = Null,
       supplier_name = Str ''Acme Co'', supplier_tax_id = Null, total_amount = Num 150.5,
       currency = Str ''USD'', tax_amount = Num 0, line_items = Arr []\<rparr>,
      \<lparr>id' = ''7ab'', fileName = ''scan1.pdf'', invoice_number = Null, invoice_date = Null,
       supplier_name = Str ''Acme Co'', supplier_tax_id = Null, total_amount = Num 150.5,
       currency = Str ''USD'', tax_amount = Num 0, line_items = Arr []\<rparr>,
      \<lparr>id' = ''z001'', fileName = ''scan2.pdf'', invoice_number = Null, invoice_date = Null,
       supplier_name = Str ''Acme Co'', supplier_tax_id = Null, total_amount = Num 150.5,
       currency = Str ''USD'', tax_amount = Num 0, line_items = Arr []\<rparr>] \<and>
   1 < length (files (card_queue three_scans)) \<and>
   extractBusinessCardData demo_parse (mixed_worlds 1) (files (card_queue three_scans) ! 1) =
     Inl ReadRejected \<and>
   extractBusinessCardData demo_parse serving (files (card_queue three_scans) ! 1) = Inr jane_raw \<and>
   \<not> nullish jane_raw \<and>
   returned (BusinessCardTab_processFiles counting_draws demo_parse mixed_worlds
      (card_queue three_scans) 0) \<and>
   BusinessCardTab_appended (card_queue three_scans)
     (BusinessCardTab_processFiles counting_draws demo_parse mixed_worlds (card_queue three_scans) 0) =
     [\<lparr>id' = ''k3x9q0zt1'', fileName = ''scan0.pdf'', full_name = Str ''Jane Doe'', company = Null,
       job_title = Null, email = Null, phone = Null, website = Null, address = Null\<rparr>,
      \<lparr>id' = ''7ab'', fileName = ''scan1.pdf'', full_name = Str ''Extraction Failed'',
       company = Null, job_title = Null, email = Null, phone = Null, website = Null,
       address = Null\<rparr>,
      \<lparr>id' = ''z001'', fileName = ''scan2.pdf'', full_name = Str ''Jane Doe'', company = Null,
       job_title = Null, email = Null, phone = Null, website = Null, address = Null\<rparr>] \<and>
   map full_name (BusinessCardTab_appended (card_queue three_scans)
     (BusinessCardTab_processFiles counting_draws demo_parse mixed_worlds (card_queue three_scans) 0)) =
     [Str ''Jane Doe'', Str ''Extraction Failed'', Str ''Jane Doe''] \<and>
   BusinessCardTab_appended (card_queue three_scans)
     (BusinessCardTab_processFiles counting_draws demo_parse (mixed_worlds(1 := serving))
        (card_queue three_scans) 0) =
     [\<lparr>id' = ''k3x9q0zt1'', fileName = ''scan0.pdf'', full_name = Str ''Jane Doe'', company = Null,
       job_title = Null, email = Null, phone = Null, website = Null, address = Null\<rparr>,
      \<lparr>id' = ''7ab'', fileName = ''scan1.pdf'', full_name = Str ''Jane Doe'', company = Null,
       job_title = Null, email = Null, phone = Null, website = Null, address = Null\<rparr>,
      \<lparr>id' = ''z001'', fileName = ''scan2.pdf'', full_name = Str ''Jane Doe'', company = Null,
       job_title = Null, email = Null, phone = Null, website = Null, address = Null\<rparr>]"
  using failure_isolated[of "invoice_queue three_scans" "card_queue three_scans" counting_draws
      demo_parse mixed_worlds 0]
  by (simp add: queue_files three_scans_facts second_scan InvoiceTab_returned
      BusinessCardTab_returned InvoiceTab_appended_run BusinessCardTab_appended_run
      mixed_invoice_new mixed_card_new mixed_served_new)

text \<open>
  C3. Normalization maps every present field of the raw extraction through unchanged and
  substitutes the documented default for every absent one, a field being absent when the
  raw result gives \<open>undefined\<close> or \<open>null\<close> for it. This holds for every raw result the
  property reads accept (every value but \<open>null\<close> and \<open>undefined\<close>), for invoices and for
  business cards; the record also gets the identifier and the file's name. It holds of
  the object literals of the two \<open>try\<close> blocks, and so of the record a batch run appends
  for a file whose extraction returns such a result.
\<close>

theorem normalization_defaults:
  assumes "\<not> nullish d"
  shows "(\<exists>r. invoice_of i f d = Inr r \<and> id' r = i \<and> fileName r = name f \<and>
              normalizes r d invoice_shape) \<and>
         (\<exists>c. card_of i f d = Inr c \<and> id' c = i \<and> fileName c = name f \<and>
              normalizes c d card_shape) \<and>
         (files s \<noteq> [] \<and> j < length (files s) \<and>
          extractInvoiceData P (ws j) (files s ! j) = Inr d \<longrightarrow>
            normalizes (InvoiceTab_appended s (InvoiceTab_processFiles rnd P ws s k) ! j) d
              invoice_shape) \<and>
         (files t \<noteq> [] \<and> j < length (files t) \<and>
          extractBusinessCardData P (ws j) (files t ! j) = Inr d \<longrightarrow>
            normalizes (BusinessCardTab_appended t (BusinessCardTab_processFiles rnd P ws t k) ! j) d
              card_shape)"
  using assms
  by (simp add: invoice_of_normalizes card_of_normalizes InvoiceTab_appended_run
      BusinessCardTab_appended_run InvoiceTab_new_normalizes BusinessCardTab_new_normalizes)

text \<open>The two partial results of the specification, alone and as the first file of the
  mixed batch.\<close>

theorem normalization_defaults_witness:
  "\<not> nullish acme_raw \<and> \<not> nullish jane_raw \<and>
   acme_raw = Obj [(''supplier_name'', Str ''Acme Co''), (''total_amount'', Num 150.5)] \<and>
   jane_raw = Obj [(''full_name'', Str ''Jane Doe'')] \<and>
   invoice_of ''k3x9q0zt1'' (scan ''scan0.pdf'') acme_raw =
     Inr \<lparr>id' = ''k3x9q0zt1'', fileName = ''scan0.pdf'', invoice_number = Null,
          invoice_date = Null, supplier_name = Str ''Acme Co'', supplier_tax_id = Null,
          total_amount = Num 150.5, currency = Str ''USD'', tax_amount = Num 0,
          line_items = Arr []\<rparr> \<and>
   card_of ''7ab'' (scan ''card.png'') jane_raw =
     Inr \<lparr>id' = ''7ab'', fileName = ''card.png'', full_name = Str ''Jane Doe'', company = Null,
          job_title = Null, email = Null, phone = Null, website = Null, address = Null\<rparr> \<and>
   files (invoice_queue three_scans) \<noteq> [] \<and> 0 < length (files (invoice_queue three_scans)) \<and>
   extractInvoiceData demo_parse (mixed_worlds 0) (files (invoice_queue three_scans) ! 0) =
     Inr acme_raw \<and>
   InvoiceTab_appended (invoice_queue three_scans)
     (InvoiceTab_processFiles counting_draws demo_parse mixed_worlds (invoice_queue three_scans) 0)
     ! 0 = acme_invoice ''k3x9q0zt1'' ''scan0.pdf'' \<and>
   normalizes (acme_invoice ''k3x9q0zt1'' ''scan0.pdf'') acme_raw invoice_shape \<and>
   files (card_queue three_scans) \<noteq> [] \<and> 0 < length (files (card_queue three_scans)) \<and>
   extractBusinessCardData demo_parse (mixed_worlds 0) (files (card_queue three_scans) ! 0) =
     Inr jane_raw \<and>
   BusinessCardTab_appended (card_queue three_scans)
     (BusinessCardTab_processFiles counting_draws demo_parse mixed_worlds (card_queue three_scans) 0)
     ! 0 = jane_partial_card ''k3x9q0zt1'' ''scan0.pdf'' \<and>
   normalizes (jane_partial_card ''k3x9q0zt1'' ''scan0.pdf'') jane_raw card_shape"
  using normalization_defaults[where d = acme_raw and i = "''k3x9q0zt1''" and f = "scan ''scan0.pdf''"
      and s = "invoice_queue three_scans" and t = "card_queue three_scans" and j = 0
      and P = demo_parse and ws = mixed_worlds and rnd = counting_draws and k = 0]
    normalization_defaults[where d = jane_raw and i = "''7ab''" and f = "scan ''card.png''"
      and s = "invoice_queue three_scans" and t = "card_queue three_scans" and j = 0
      and P = demo_parse and ws = mixed_worlds and rnd = counting_draws and k = 0]
  by (simp add: queue_files three_scans_facts first_scan InvoiceTab_appended_run
      BusinessCardTab_appended_run mixed_runs)
    (simp add: acme_raw_def jane_raw_def nullish_def invoice_of_def card_of_def bindE_def
      coalesce_def scan_def)

text \<open>
  C4. When extraction fails for a file of an invoice batch, the record appended in that
  file's position has the file's name, \<open>invoice_number = "ERROR"\<close>,
  \<open>supplier_name = "Extraction Failed"\<close>, \<open>total_amount = 0\<close>, \<open>tax_amount = 0\<close>,
  \<open>currency = ""\<close> and \<open>line_items = []\<close> (and both remaining fields \<open>null\<close>).
\<close>

theorem failed_invoice_record:
  assumes "files s \<noteq> []" and "i < length (files s)"
    and "extractInvoiceData P (ws i) (files s ! i) = Inl e"
  shows "\<exists>r. InvoiceTab_appended s (InvoiceTab_processFiles rnd P ws s k) ! i = r \<and>
           fileName r = name (files s ! i) \<and>
           invoice_number r = Str ''ERROR'' \<and>
           supplier_name r = Str ''Extraction Failed'' \<and>
           total_amount r = Num 0 \<and>
           tax_amount r = Num 0 \<and>
           currency r = Str [] \<and>
           line_items r = Arr [] \<and>
           invoice_date r = Null \<and>
           supplier_tax_id r = Null"
  using assms
  by (simp add: InvoiceTab_appended_run InvoiceTab_new_nth InvoiceTab_step_failed
      failed_invoice_def)

text \<open>The model call for \<open>scan1.pdf\<close> is rejected.\<close>

theorem failed_invoice_record_witness:
  "files (invoice_queue [scan ''scan1.pdf'']) \<noteq> [] \<and>
   0 < length (files (invoice_queue [scan ''scan1.pdf''])) \<and>
   extractInvoiceData demo_parse (always_rejecting 0) (files (invoice_queue [scan ''scan1.pdf'']) ! 0)
     = Inl (ServiceRejected ''quota exceeded'') \<and>
   InvoiceTab_appended (invoice_queue [scan ''scan1.pdf''])
     (InvoiceTab_processFiles counting_draws demo_parse always_rejecting
        (invoice_queue [scan ''scan1.pdf'']) 0) =
     [\<lparr>id' = ''k3x9q0zt1'', fileName = ''scan1.pdf'', invoice_number = Str ''ERROR'',
       invoice_date = Null, supplier_name = Str ''Extraction Failed'', supplier_tax_id = Null,
       total_amount = Num 0, currency = Str [], tax_amount = Num 0, line_items = Arr []\<rparr>]"
  using failed_invoice_record[of "invoice_queue [scan ''scan1.pdf'']" 0 demo_parse
      always_rejecting "ServiceRejected ''quota exceeded''" counting_draws 0]
  by (simp add: queue_files scan1_rejected InvoiceTab_appended_run scan1_rejected_new)



text \<open>
  C6, as the code has it. The identifier of every record a batch run appends is
  the first nine digits (fewer when fewer are printed) that the base-36 rendering of one
  of the random draws of that run shows after the point, and no draw is used for two
  records. So the identifiers of a run are pairwise distinct when those digit strings of
  its draws are, and non-empty when none of its draws is zero.
\<close>

theorem identifiers_from_draws:
  assumes "files s \<noteq> []" and "files t \<noteq> []"
  shows "(\<forall>r\<in>set (InvoiceTab_appended s (InvoiceTab_processFiles rnd P ws s k)).
            \<exists>m. k \<le> m \<and> m < snd (InvoiceTab_processFiles rnd P ws s k) \<and> id' r = take 9 (rnd m)) \<and>
         (distinct (map (ident rnd) [k..<snd (InvoiceTab_processFiles rnd P ws s k)]) \<longrightarrow>
            distinct (map id' (InvoiceTab_appended s (InvoiceTab_processFiles rnd P ws s k)))) \<and>
         ((\<forall>m. k \<le> m \<and> m < snd (InvoiceTab_processFiles rnd P ws s k) \<longrightarrow> rnd m \<noteq> []) \<longrightarrow>
            (\<forall>r\<in>set (InvoiceTab_appended s (InvoiceTab_processFiles rnd P ws s k)). id' r \<noteq> [])) \<and>
         (\<forall>r\<in>set (BusinessCardTab_appended t (BusinessCardTab_processFiles rnd P ws t k)).
            \<exists>m. k \<le> m \<and> m < snd (BusinessCardTab_processFiles rnd P ws t k) \<and>
                id' r = take 9 (rnd m)) \<and>
         (distinct (map (ident rnd) [k..<snd (BusinessCardTab_processFiles rnd P ws t k)]) \<longrightarrow>
            distinct (map id' (BusinessCardTab_appended t (BusinessCardTab_processFiles rnd P ws t k)))) \<and>
         ((\<forall>m. k \<le> m \<and> m < snd (BusinessCardTab_processFiles rnd P ws t k) \<longrightarrow> rnd m \<noteq> []) \<longrightarrow>
            (\<forall>r\<in>set (BusinessCardTab_appended t (BusinessCardTab_processFiles rnd P ws t k)).
               id' r \<noteq> []))"
proof -
  obtain ms where ms: "map id' (InvoiceTab_new rnd P ws (files s) k) = map (ident rnd) ms"
    "distinct ms" "set ms \<subseteq> {k..<InvoiceTab_used rnd P ws (files s) k}"
    using InvoiceTab_new_ids by blast
  obtain ns where ns: "map id' (BusinessCardTab_new rnd P ws (files t) k) = map (ident rnd) ns"
    "distinct ns" "set ns \<subseteq> {k..<BusinessCardTab_used rnd P ws (files t) k}"
    using BusinessCardTab_new_ids by blast
  have a: "InvoiceTab_appended s (InvoiceTab_processFiles rnd P ws s k) =
           InvoiceTab_new rnd P ws (files s) k"
    "snd (InvoiceTab_processFiles rnd P ws s k) = InvoiceTab_used rnd P ws (files s) k"
    using assms(1) by (simp_all add: InvoiceTab_appended_run InvoiceTab_used_run)
  have b: "BusinessCardTab_appended t (BusinessCardTab_processFiles rnd P ws t k) =
           BusinessCardTab_new rnd P ws (files t) k"
    "snd (BusinessCardTab_processFiles rnd P ws t k) = BusinessCardTab_used rnd P ws (files t) k"
    using assms(2) by (simp_all add: BusinessCardTab_appended_run BusinessCardTab_used_run)
  show ?thesis
    unfolding a b using ids_of_draws[OF ms] ids_of_draws[OF ns] by blast
qed

text \<open>
  C6 as the specification states it fails: when the draws repeat, so do the identifiers,
  and a draw of zero gives the empty identifier.
\<close>

theorem identifiers_can_collide:
  "\<not> distinct (map id' (InvoiceTab_appended (invoice_queue three_scans)
       (InvoiceTab_processFiles half_draws demo_parse mixed_worlds (invoice_queue three_scans) 0))) \<and>
   map id' (InvoiceTab_appended (invoice_queue three_scans)
       (InvoiceTab_processFiles half_draws demo_parse mixed_worlds (invoice_queue three_scans) 0)) =
     [''i'', ''i'', ''i''] \<and>
   map id' (InvoiceTab_appended (invoice_queue three_scans)
       (InvoiceTab_processFiles zero_draws demo_parse mixed_worlds (invoice_queue three_scans) 0)) =
     [[], [], []] \<and>
   map id' (BusinessCardTab_appended (card_queue three_scans)
       (BusinessCardTab_processFiles half_draws demo_parse mixed_worlds (card_queue three_scans) 0)) =
     [''i'', ''i'', ''i''] \<and>
   map id' (BusinessCardTab_appended (card_queue three_scans)
       (BusinessCardTab_processFiles zero_draws demo_parse mixed_worlds (card_queue three_scans) 0)) =
     [[], [], []]"
  by (simp add: queue_files three_scans_facts InvoiceTab_appended_run BusinessCardTab_appended_run
      half_zero_runs)

text \<open>Three draws that print different digits.\<close>

theorem identifiers_from_draws_witness:
  "files (invoice_queue three_scans) \<noteq> [] \<and> files (card_queue three_scans) \<noteq> [] \<and>
   distinct (map (ident counting_draws)
     [0..<snd (InvoiceTab_processFiles counting_draws demo_parse mixed_worlds
                (invoice_queue three_scans) 0)]) \<and>
   distinct (map (ident counting_draws)
     [0..<snd (BusinessCardTab_processFiles counting_draws demo_parse mixed_worlds
                (card_queue three_scans) 0)]) \<and>
   map id' (InvoiceTab_appended (invoice_queue three_scans)
       (InvoiceTab_processFiles counting_draws demo_parse mixed_worlds
          (invoice_queue three_scans) 0)) = [''k3x9q0zt1'', ''7ab'', ''z001''] \<and>
   distinct (map id' (InvoiceTab_appended (invoice_queue three_scans)
       (InvoiceTab_processFiles counting_draws demo_parse mixed_worlds
          (invoice_queue three_scans) 0))) \<and>
   map id' (BusinessCardTab_appended (card_queue three_scans)
       (BusinessCardTab_processFiles counting_draws demo_parse mixed_worlds
          (card_queue three_scans) 0)) = [''k3x9q0zt1'', ''7ab'', ''z001''] \<and>
   distinct (map id' (BusinessCardTab_appended (card_queue three_scans)
       (BusinessCardTab_processFiles counting_draws demo_parse mixed_worlds
          (card_queue three_scans) 0)))"
  using identifiers_from_draws[of "invoice_queue three_scans" "card_queue three_scans"
      counting_draws demo_parse mixed_worlds 0]
  by (simp add: queue_files three_scans_facts InvoiceTab_appended_run BusinessCardTab_appended_run
      InvoiceTab_used_run BusinessCardTab_used_run counting_used counting_idents
      mixed_runs acme_invoice_def jane_partial_card_def failed_invoice_def failed_card_def)

text \<open>
  C7. A raw extraction result that supplies a value (neither \<open>undefined\<close> nor \<open>null\<close>) for
  every field of the record shape is normalized to a record that carries exactly those
  values, whatever the identifier and the file: no default is substituted.
\<close>

theorem normalization_of_complete_input:
  "(complete d invoice_shape \<longrightarrow>
      (\<exists>r. invoice_of i f d = Inr r \<and> carries r d invoice_shape)) \<and>
   (complete d card_shape \<longrightarrow>
      (\<exists>c. card_of i f d = Inr c \<and> carries c d card_shape))"
proof (intro conjI impI)
  assume c: "complete d invoice_shape"
  then have "\<not> nullish d" unfolding invoice_shape_def by (rule complete_not_nullish)
  with c show "\<exists>r. invoice_of i f d = Inr r \<and> carries r d invoice_shape"
    by (simp add: invoice_of_ok complete_def carries_def invoice_shape_def coalesce_present)
next
  assume c: "complete d card_shape"
  then have "\<not> nullish d" unfolding card_shape_def by (rule complete_not_nullish)
  with c show "\<exists>c. card_of i f d = Inr c \<and> carries c d card_shape"
    by (simp add: card_of_ok complete_def carries_def card_shape_def coalesce_present)
qed

text \<open>A complete invoice and a complete business card.\<close>

theorem normalization_of_complete_input_witness:
  "complete full_invoice_raw invoice_shape \<and> complete full_card_raw card_shape \<and>
   invoice_of ''k3x9q0zt1'' (scan ''scan0.pdf'') full_invoice_raw =
     Inr \<lparr>id' = ''k3x9q0zt1'', fileName = ''scan0.pdf'', invoice_number = Str ''INV-7'',
          invoice_date = Str ''2024-05-01'', supplier_name = Str ''Acme Co'',
          supplier_tax_id = Str ''DE123'', total_amount = Num 150.5, currency = Str ''EUR'',
          tax_amount = Num 24,
          line_items = Arr [Obj [(''description'', Str ''Bolt''), (''line_total'', Num 150.5)]]\<rparr> \<and>
   card_of ''7ab'' (scan ''card.png'') full_card_raw =
     Inr \<lparr>id' = ''7ab'', fileName = ''card.png'', full_name = Str ''Jane Doe'',
          company = Str ''Acme Co'', job_title = Str ''CTO'', email = Str ''jane@acme.example'',
          phone = Str ''555-0100'', website = Str ''acme.example'', address = Str ''1 Main St''\<rparr>"
  using normalization_of_complete_input[of full_invoice_raw "''k3x9q0zt1''" "scan ''scan0.pdf''"]
    normalization_of_complete_input[of full_card_raw "''7ab''" "scan ''card.png''"]
  by (simp add: full_raw_complete)
    (simp add: full_invoice_raw_def full_card_raw_def invoice_of_def card_of_def bindE_def
      coalesce_def nullish_def scan_def)

text \<open>
  C8 says that the clipboard text has exactly one line per record. The text is the
  records' field texts joined by \<open>; \<close> and then by line feeds (\<open>clipboard_lines\<close>), which
  is one line per record as long as no field text contains a line feed
  (\<open>clipboard_lines_split\<close>). A field is copied as it is, though: the card that the
  normalization makes of a result whose address has two lines is exported as two lines,
  the second of which is no record's line.
\<close>

theorem clipboard_line_feed_in_field:
  "card_of ''k3x9q0zt1'' (scan ''card.png'') two_line_raw = Inr two_line_card \<and>
   getGoogleContactsText number_text [two_line_card] =
     Inr (''Jane Doe; ; ; ; ; ; 1 Main St'' @ [CHR 0x0A] @ ''Springfield'') \<and>
   split (CHR 0x0A) (''Jane Doe; ; ; ; ; ; 1 Main St'' @ [CHR 0x0A] @ ''Springfield'') =
     [''Jane Doe; ; ; ; ; ; 1 Main St'', ''Springfield''] \<and>
   length [''Jane Doe; ; ; ; ; ; 1 Main St'', ''Springfield''] = 2 \<and>
   length [two_line_card] = 1"
  by (simp add: getGoogleContactsText_def contact_line_def field_text_simps two_line_card_def
      two_line_raw_def card_of_def bindE_def coalesce_def nullish_def scan_def)

text \<open>
  C9. A batch run over a non-empty queue returns a state whose status is \<open>success\<close>,
  whatever the world answers (so also when every file fails), and no state either tab can
  reach has the status \<open>error\<close>.
\<close>

theorem status_success_never_error:
  "(files s \<noteq> [] \<longrightarrow>
      (\<exists>s' k'. InvoiceTab_processFiles rnd P ws s k = (Inr s', k') \<and> status s' = success)) \<and>
   (files t \<noteq> [] \<longrightarrow>
      (\<exists>t' k'. BusinessCardTab_processFiles rnd P ws t k = (Inr t', k') \<and> status t' = success)) \<and>
   (InvoiceTab_reachable u \<longrightarrow> status u \<noteq> error) \<and>
   (BusinessCardTab_reachable v \<longrightarrow> status v \<noteq> error)"
  by (simp add: InvoiceTab_processFiles_run BusinessCardTab_processFiles_run
      InvoiceTab_reachable_status BusinessCardTab_reachable_status)

text \<open>
  A batch in which the model call is rejected for every file, and the state rendered while
  a batch runs.
\<close>

theorem status_success_never_error_witness:
  "files (invoice_queue three_scans) \<noteq> [] \<and> files (card_queue three_scans) \<noteq> [] \<and>
   InvoiceTab_reachable (InvoiceTab_started (invoice_queue three_scans)) \<and>
   BusinessCardTab_reachable (BusinessCardTab_started (card_queue three_scans)) \<and>
   (\<exists>s' k'. InvoiceTab_processFiles counting_draws demo_parse always_rejecting
        (invoice_queue three_scans) 0 = (Inr s', k') \<and> status s' = success \<and>
      map invoice_number (invoices s') = [Str ''ERROR'', Str ''ERROR'', Str ''ERROR'']) \<and>
   (\<exists>t' k'. BusinessCardTab_processFiles counting_draws demo_parse always_rejecting
        (card_queue three_scans) 0 = (Inr t', k') \<and> status t' = success \<and>
      map full_name (cards t') =
        [Str ''Extraction Failed'', Str ''Extraction Failed'', Str ''Extraction Failed'']) \<and>
   status (InvoiceTab_started (invoice_queue three_scans)) \<noteq> error \<and>
   status (BusinessCardTab_started (card_queue three_scans)) \<noteq> error"
  using status_success_never_error[of "invoice_queue three_scans" counting_draws demo_parse
      always_rejecting 0 "card_queue three_scans" "InvoiceTab_started (invoice_queue three_scans)"
      "BusinessCardTab_started (card_queue three_scans)"]
  by (simp add: queue_files three_scans_facts started_reachable InvoiceTab_processFiles_run
      BusinessCardTab_processFiles_run all_rejected_invoice_new all_rejected_card_new)

text \<open>
  C10. A batch run appends its new records to the end of the existing results: the
  records present before the run are a prefix of the results after it, each at its
  position, and the returned state's file queue is empty.
\<close>

theorem results_appended_queue_cleared:
  "(\<exists>s' k' new. InvoiceTab_processFiles rnd P ws s k = (Inr s', k') \<and>
      invoices s' = invoices s @ new \<and>
      (\<forall>i<length (invoices s). invoices s' ! i = invoices s ! i) \<and>
      files s' = []) \<and>
   (\<exists>t' k' new. BusinessCardTab_processFiles rnd P ws t k = (Inr t', k') \<and>
      cards t' = cards t @ new \<and>
      (\<forall>i<length (cards t). cards t' ! i = cards t ! i) \<and>
      files t' = [])"
proof
  show "\<exists>s' k' new. InvoiceTab_processFiles rnd P ws s k = (Inr s', k') \<and>
      invoices s' = invoices s @ new \<and>
      (\<forall>i<length (invoices s). invoices s' ! i = invoices s ! i) \<and> files s' = []"
    by (cases "files s = []")
      (simp_all add: InvoiceTab_processFiles_empty InvoiceTab_processFiles_run nth_append)
  show "\<exists>t' k' new. BusinessCardTab_processFiles rnd P ws t k = (Inr t', k') \<and>
      cards t' = cards t @ new \<and>
      (\<forall>i<length (cards t). cards t' ! i = cards t ! i) \<and> files t' = []"
    by (cases "files t = []")
      (simp_all add: BusinessCardTab_processFiles_empty BusinessCardTab_processFiles_run nth_append)
qed

text \<open>
  A second batch of one file, run on a tab that holds a record of an earlier batch.
\<close>

theorem results_appended_queue_cleared_witness:
  "(\<exists>s' k'. InvoiceTab_processFiles counting_draws demo_parse always_serving later_invoice_tab 0
        = (Inr s', k') \<and>
      invoices s' =
        [failed_invoice ''earlier01'' (scan ''scan1.pdf''),
         \<lparr>id' = ''k3x9q0zt1'', fileName = ''scan3.pdf'', invoice_number = Null,
          invoice_date = Null, supplier_name = Str ''Acme Co'', supplier_tax_id = Null,
          total_amount = Num 150.5, currency = Str ''USD'', tax_amount = Num 0,
          line_items = Arr []\<rparr>] \<and>
      invoices s' ! 0 = invoices later_invoice_tab ! 0 \<and>
      files s' = []) \<and>
   (\<exists>t' k'. BusinessCardTab_processFiles counting_draws demo_parse always_serving later_card_tab 0
        = (Inr t', k') \<and>
      cards t' =
        [jane_card,
         \<lparr>id' = ''k3x9q0zt1'', fileName = ''card2.png'', full_name = Str ''Jane Doe'',
          company = Null, job_title = Null, email = Null, phone = Null, website = Null,
          address = Null\<rparr>] \<and>
      cards t' ! 0 = cards later_card_tab ! 0 \<and>
      files t' = [])"
  using results_appended_queue_cleared[of counting_draws demo_parse always_serving
      later_invoice_tab 0 later_card_tab]
  by (simp add: InvoiceTab_processFiles_run BusinessCardTab_processFiles_run later_invoice_tab_def
      later_card_tab_def later_invoice_new later_card_new)

end
